theory Spec2Isabelle
  imports Complex_Main "HOL-Library.Sublist" "HOL-Library.Log_Nat"
begin

section \<open>JavaScript values shared by the scripts\<close>

text \<open>
  \<open>String.prototype.includes\<close>: the pattern occurs as a contiguous run of the
  text. Strings are modelled as lists of 8-bit characters; every marker the scripts look
  for is ASCII.
\<close>

definition str_includes :: "string \<Rightarrow> string \<Rightarrow> bool" where
  "str_includes s pat = sublist pat s"

text \<open>
  A JavaScript number as far as the scripts can produce one from counters: a finite
  value, \<open>NaN\<close> (from \<open>0 / 0\<close> or an \<open>undefined\<close> operand) or \<open>Infinity\<close>
  (from \<open>n / 0\<close> with \<open>n > 0\<close>). Finite arithmetic is exact rational arithmetic here;
  the source computes in IEEE doubles.
\<close>

datatype number = Num rat | NaN | Infinity

text \<open>\<open>a / b\<close> where each operand is a counter value or \<open>undefined\<close> (\<open>None\<close>).\<close>

fun js_div :: "nat option \<Rightarrow> nat option \<Rightarrow> number" where
  "js_div None _ = NaN"
| "js_div _ None = NaN"
| "js_div (Some a) (Some b) =
     (if b = 0 then (if a = 0 then NaN else Infinity)
      else Num (of_nat a / of_nat b))"

text \<open>\<open>x * 100\<close>.\<close>

fun js_times100 :: "number \<Rightarrow> number" where
  "js_times100 (Num x) = Num (x * 100)"
| "js_times100 NaN = NaN"
| "js_times100 Infinity = Infinity"

text \<open>\<open>x || 0\<close>: \<open>NaN\<close> and \<open>0\<close> are falsy, every other number is kept.\<close>

fun js_or0 :: "number \<Rightarrow> number" where
  "js_or0 (Num x) = Num x"
| "js_or0 NaN = Num 0"
| "js_or0 Infinity = Infinity"

text \<open>
  What a script throws: a TypeError from reading a property of \<open>null\<close>, or an
  \<open>Error\<close> (a rejected client call included) with its message.
\<close>

datatype js_error = TypeError | Error string

text \<open>\<open>c || 0\<close> for a counter value that may be \<open>undefined\<close>.\<close>

fun count_or0 :: "nat option \<Rightarrow> nat" where
  "count_or0 None = 0"
| "count_or0 (Some n) = n"

text \<open>\<open>x || 0\<close> for an integer that may be \<open>undefined\<close>.\<close>

fun int_or0 :: "int option \<Rightarrow> int" where
  "int_or0 None = 0"
| "int_or0 (Some n) = n"

section \<open>Load driver: \<open>load-tests/chat-load-test.js\<close> and \<open>load-tests/single-room-load-test.js\<close>\<close>

text \<open>
  The fields of the k6 response object that the iteration reads. \<open>body\<close> is
  \<open>None\<close> for \<open>null\<close>.
\<close>

record response =
  status :: int
  error_code :: int
  body :: "string option"

text \<open>
  The module-level state of a script: the custom counters (each \<open>add(1)\<close> is an
  increment), the \<open>chat_api_success_rate\<close> samples, and the three breaking-point
  variables, \<open>None\<close> for \<open>null\<close>.
\<close>

record driver_state =
  totalRequests :: nat
  totalErrors :: nat
  timeoutErrors :: nat
  s3SlowDownErrors :: nat
  s3Errors :: nat
  greendotUpdates :: nat
  chatApiSuccess :: "bool list"
  firstErrorIteration :: "nat option"
  firstS3SlowDownIteration :: "nat option"
  firstTimeoutIteration :: "nat option"

definition initial_state :: driver_state where
  "initial_state =
     \<lparr>totalRequests = 0, totalErrors = 0, timeoutErrors = 0, s3SlowDownErrors = 0,
      s3Errors = 0, greendotUpdates = 0, chatApiSuccess = [],
      firstErrorIteration = None, firstS3SlowDownIteration = None,
      firstTimeoutIteration = None\<rparr>"

text \<open>\<open>const isTimeout = response.status === 0 || response.error_code === 1050\<close>\<close>

definition isTimeout :: "response \<Rightarrow> bool" where
  "isTimeout r = (status r = 0 \<or> error_code r = 1050)"

text \<open>\<open>const isSuccess = response.status === 200 || response.status === 201\<close>\<close>

definition isSuccess :: "response \<Rightarrow> bool" where
  "isSuccess r = (status r = 200 \<or> status r = 201)"

text \<open>The condition of the "Track errors and breaking points" branch.\<close>

definition isGenericError :: "response \<Rightarrow> bool" where
  "isGenericError r = (\<not> isSuccess r \<and> \<not> isTimeout r)"

text \<open>\<open>response.body && response.body.includes('SlowDown')\<close>\<close>

definition isSlowDown :: "response \<Rightarrow> bool" where
  "isSlowDown r = (case body r of None \<Rightarrow> False | Some b \<Rightarrow> b \<noteq> [] \<and> str_includes b ''SlowDown'')"

text \<open>The condition of the \<open>else if\<close> of the S3 block, without the \<open>else\<close>.\<close>

definition isS3Marker :: "response \<Rightarrow> bool" where
  "isS3Marker r =
     (case body r of None \<Rightarrow> False
      | Some b \<Rightarrow> b \<noteq> [] \<and>
          (str_includes b ''S3'' \<or> str_includes b ''ServiceUnavailable'' \<or> str_includes b ''InternalError''))"

text \<open>\<open>if (v === null) { v = iterationId }\<close>: the write of a breaking-point variable.\<close>

definition latch :: "nat option \<Rightarrow> nat \<Rightarrow> nat option" where
  "latch v iterationId = (case v of None \<Rightarrow> Some iterationId | Some i \<Rightarrow> Some i)"

text \<open>The four blocks of the iteration that change the state, in source order.\<close>

definition track_requests :: "response \<Rightarrow> driver_state \<Rightarrow> driver_state" where
  "track_requests r s =
     (let s1 = s\<lparr>totalRequests := totalRequests s + 1\<rparr>;
          s2 = s1\<lparr>chatApiSuccess := chatApiSuccess s1 @ [isSuccess r]\<rparr>
      in if status r = 200 \<or> status r = 201
         then s2\<lparr>greendotUpdates := greendotUpdates s2 + 1\<rparr> else s2)"

definition track_timeout :: "nat \<Rightarrow> response \<Rightarrow> driver_state \<Rightarrow> driver_state" where
  "track_timeout iterationId r s =
     (if isTimeout r
      then s\<lparr>timeoutErrors := timeoutErrors s + 1,
             totalErrors := totalErrors s + 1,
             firstTimeoutIteration := latch (firstTimeoutIteration s) iterationId\<rparr>
      else s)"

definition track_errors :: "nat \<Rightarrow> response \<Rightarrow> driver_state \<Rightarrow> driver_state" where
  "track_errors iterationId r s =
     (if \<not> isSuccess r \<and> \<not> isTimeout r
      then s\<lparr>totalErrors := totalErrors s + 1,
             firstErrorIteration := latch (firstErrorIteration s) iterationId\<rparr>
      else s)"

definition track_s3 :: "nat \<Rightarrow> response \<Rightarrow> driver_state \<Rightarrow> driver_state" where
  "track_s3 iterationId r s =
     (if isSlowDown r
      then s\<lparr>s3SlowDownErrors := s3SlowDownErrors s + 1,
             s3Errors := s3Errors s + 1,
             firstS3SlowDownIteration := latch (firstS3SlowDownIteration s) iterationId\<rparr>
      else if isS3Marker r
      then s\<lparr>s3Errors := s3Errors s + 1\<rparr>
      else s)"

text \<open>
  The "Request failed" log line reads \<open>response.body.substring\<close> whenever
  \<open>response.status >= 400\<close>; with a \<open>null\<close> body that is a TypeError, raised after
  every counter and breaking-point variable has been updated.
\<close>

definition log_failed :: "response \<Rightarrow> js_error option" where
  "log_failed r = (if status r \<ge> 400 \<and> body r = None then Some TypeError else None)"

text \<open>
  One run of the exported default function for the response \<open>r\<close> of iteration
  \<open>iterationId\<close> (\<open>__ITER\<close>). Both scripts make the same state updates; they differ
  in the payload, the log texts and the sleep. The result is the exception that ends the
  iteration, if any, and the state after it.
\<close>

definition default_iteration ::
  "nat \<Rightarrow> response \<Rightarrow> driver_state \<Rightarrow> js_error option \<times> driver_state" where
  "default_iteration iterationId r s =
     (log_failed r,
      track_s3 iterationId r (track_errors iterationId r
        (track_timeout iterationId r (track_requests r s))))"

text \<open>A sequence of iterations, each given by its index and the response it received.\<close>

fun run :: "(nat \<times> response) list \<Rightarrow> driver_state \<Rightarrow> driver_state" where
  "run [] s = s"
| "run ((i, r) # rest) s = run rest (snd (default_iteration i r s))"


subsection \<open>\<open>handleSummary\<close>: the end-of-run breaking-point report\<close>

text \<open>
  The counter values the summary handler reads, each
  \<open>data.metrics.<name>?.values?.count\<close>: \<open>None\<close> when the optional chain gives
  \<open>undefined\<close>.
\<close>

record summary_data =
  total_requests :: "nat option"
  total_errors :: "nat option"
  timeout_errors :: "nat option"
  s3_slowdown_errors :: "nat option"
  s3_errors_total :: "nat option"

text \<open>
  The values the handler puts into the "BREAKING POINT ANALYSIS" text. A breaking-point
  line is \<open>None\<close> when the text says that none was detected. The two rates are the
  numbers before \<open>toFixed(2)\<close>; the text prints each followed by a percent sign.
\<close>

record breakpoint_report =
  first_timeout :: "nat option"
  first_error :: "nat option"
  first_s3_slowdown :: "nat option"
  report_total_requests :: nat
  report_total_errors :: nat
  report_timeout_errors :: nat
  report_s3_slowdown_errors :: nat
  report_s3_errors_total :: nat
  error_rate :: number
  timeout_rate :: number

text \<open>
  \<open>chat-load-test.js\<close>:
  \<open>const errorRate = total_errors.count / total_requests.count * 100 || 0\<close>,
  and the same with \<open>timeout_errors\<close>.
\<close>

definition handleSummary_chat :: "driver_state \<Rightarrow> summary_data \<Rightarrow> breakpoint_report" where
  "handleSummary_chat s d =
     \<lparr>first_timeout = firstTimeoutIteration s,
      first_error = firstErrorIteration s,
      first_s3_slowdown = firstS3SlowDownIteration s,
      report_total_requests = count_or0 (total_requests d),
      report_total_errors = count_or0 (total_errors d),
      report_timeout_errors = count_or0 (timeout_errors d),
      report_s3_slowdown_errors = count_or0 (s3_slowdown_errors d),
      report_s3_errors_total = count_or0 (s3_errors_total d),
      error_rate = js_or0 (js_times100 (js_div (total_errors d) (total_requests d))),
      timeout_rate = js_or0 (js_times100 (js_div (timeout_errors d) (total_requests d)))\<rparr>"

text \<open>
  \<open>single-room-load-test.js\<close>: the counts are defaulted first
  (\<open>const totalReqs = ... || 0\<close>) and the division is guarded:
  \<open>totalReqs > 0 ? (totalErrs / totalReqs * 100) : 0\<close>. The success rate and the
  throughput lines of this script's text are not part of the record.
\<close>

definition handleSummary_single :: "driver_state \<Rightarrow> summary_data \<Rightarrow> breakpoint_report" where
  "handleSummary_single s d =
     (let totalReqs = count_or0 (total_requests d);
          totalErrs = count_or0 (total_errors d);
          timeoutCount = count_or0 (timeout_errors d)
      in \<lparr>first_timeout = firstTimeoutIteration s,
          first_error = firstErrorIteration s,
          first_s3_slowdown = firstS3SlowDownIteration s,
          report_total_requests = count_or0 (total_requests d),
          report_total_errors = count_or0 (total_errors d),
          report_timeout_errors = count_or0 (timeout_errors d),
          report_s3_slowdown_errors = count_or0 (s3_slowdown_errors d),
          report_s3_errors_total = count_or0 (s3_errors_total d),
          error_rate =
            (if totalReqs > 0 then Num (of_nat totalErrs / of_nat totalReqs * 100) else Num 0),
          timeout_rate =
            (if totalReqs > 0 then Num (of_nat timeoutCount / of_nat totalReqs * 100)
             else Num 0)\<rparr>)"


section \<open>Metrics collector: \<open>checkOpenSearchMetrics.ts\<close>\<close>

subsection \<open>\<open>parseInt\<close> and \<open>toFixed\<close>\<close>

text \<open>
  \<open>parseInt(s)\<close> with no radix: leading white space is skipped, then an optional sign,
  then a \<open>0x\<close> prefix selects base 16, and the longest run of digits is read. The
  result is \<open>None\<close> for \<open>NaN\<close> (no digit). White space is the ASCII white space.
\<close>

definition is_ws :: "char \<Rightarrow> bool" where
  "is_ws c = (c = CHR '' '' \<or> c = CHR 0x09 \<or> c = CHR 0x0A \<or> c = CHR 0x0B \<or>
              c = CHR 0x0C \<or> c = CHR 0x0D)"

definition digit_of :: "nat \<Rightarrow> char \<Rightarrow> nat option" where
  "digit_of radix c =
     (let n = of_char c :: nat;
          v = (if 48 \<le> n \<and> n \<le> 57 then Some (n - 48)
               else if 97 \<le> n \<and> n \<le> 122 then Some (n - 87)
               else if 65 \<le> n \<and> n \<le> 90 then Some (n - 55)
               else None)
      in case v of None \<Rightarrow> None | Some k \<Rightarrow> if k < radix then Some k else None)"

text \<open>The value of the longest prefix of digits, \<open>None\<close> when it is empty.\<close>

fun read_digits :: "nat \<Rightarrow> nat option \<Rightarrow> string \<Rightarrow> nat option" where
  "read_digits radix acc [] = acc"
| "read_digits radix acc (c # cs) =
     (case digit_of radix c of
        None \<Rightarrow> acc
      | Some k \<Rightarrow>
          read_digits radix (Some ((case acc of None \<Rightarrow> 0 | Some a \<Rightarrow> a) * radix + k)) cs)"

definition parseInt :: "string \<Rightarrow> int option" where
  "parseInt s =
     (let t = dropWhile is_ws s;
          neg = (case t of [] \<Rightarrow> False | c # _ \<Rightarrow> c = CHR ''-'');
          u = (case t of [] \<Rightarrow> []
               | c # r \<Rightarrow> if c = CHR ''-'' \<or> c = CHR ''+'' then r else t);
          hex = (take 2 u = ''0x'' \<or> take 2 u = ''0X'');
          v = (if hex then read_digits 16 None (drop 2 u) else read_digits 10 None u)
      in case v of None \<Rightarrow> None
         | Some n \<Rightarrow> Some (if neg then - int n else int n))"

text \<open>\<open>x > c\<close> for a parsed value: every comparison with \<open>NaN\<close> is false.\<close>

fun nan_gt :: "int option \<Rightarrow> int \<Rightarrow> bool" where
  "nan_gt None c = False"
| "nan_gt (Some n) c = (n > c)"

text \<open>
  The arithmetic of IEEE doubles. A finite double is modelled by the rational number it
  denotes, and \<open>to_double x\<close> is the double nearest to \<open>x\<close>, the one with an even
  mantissa at a tie: the result of a division or multiplication is \<open>to_double\<close> of the
  exact result. \<open>binade x\<close> is the exponent \<open>e\<close> with \<open>2^e \<le> x < 2^(e+1)\<close> and the
  mantissa has 53 bits. Overflow and subnormal numbers are left out; quotients of
  integers below \<open>2^53\<close> in magnitude, and their hundredfold, stay clear of both.
\<close>

definition pow2 :: "int \<Rightarrow> rat" where
  "pow2 k = (if k \<ge> 0 then 2 ^ nat k else 1 / 2 ^ nat (- k))"

definition binade :: "rat \<Rightarrow> int" where
  "binade x =
     (let k = bitlen (fst (quotient_of x)) - bitlen (snd (quotient_of x))
      in if pow2 k \<le> x then k else k - 1)"

definition round_half_even :: "rat \<Rightarrow> int" where
  "round_half_even m =
     (let n = \<lfloor>m\<rfloor>; r = m - of_int n
      in if r < 1 / 2 then n else if r > 1 / 2 then n + 1
         else if even n then n else n + 1)"

definition to_double :: "rat \<Rightarrow> rat" where
  "to_double x =
     (if x = 0 then 0
      else (let a = \<bar>x\<bar>; q = pow2 (binade a - 52);
                y = of_int (round_half_even (a / q)) * q
            in if x < 0 then - y else y))"

text \<open>
  \<open>parseFloat(x.toFixed(2))\<close> for a double \<open>x\<close>: \<open>toFixed\<close> takes the multiple of
  1/100 nearest to the value of \<open>x\<close>, the larger magnitude at a tie. The result stands
  for the two-decimal number that is printed and parsed back; comparing it with an
  integer gives the same answer as comparing the parsed double.
\<close>

definition toFixed2 :: "rat \<Rightarrow> rat" where
  "toFixed2 x =
     (if x < 0 then - (of_int \<lfloor>- x * 100 + 1 / 2\<rfloor> / 100)
      else of_int \<lfloor>x * 100 + 1 / 2\<rfloor> / 100)"

text \<open>\<open>Math.max(a, b)\<close> with \<open>None\<close> for \<open>NaN\<close>.\<close>

fun js_max :: "rat option \<Rightarrow> rat option \<Rightarrow> rat option" where
  "js_max (Some a) (Some b) = Some (max a b)"
| "js_max _ _ = None"

subsection \<open>The metric groups\<close>

text \<open>
  Each record keeps the fields that the script computes with or writes to the summary;
  fields that are only printed are left out. Nested objects are flattened, the path being
  given beside the field. Integer-valued JSON numbers are \<open>int\<close>.
\<close>

text \<open>The body of \<open>cluster.health\<close>; \<open>cluster_status\<close> is its \<open>status\<close>.\<close>

record clusterHealth =
  cluster_status :: string
  number_of_nodes :: int
  number_of_pending_tasks :: int

text \<open>
  One row of \<open>cat.threadPool\<close> with \<open>format: 'json'\<close>: every column is a string, which
  the script reads with \<open>parseInt\<close>.
\<close>

record pool =
  pool_node_name :: string
  pool_name :: string
  pool_active :: string
  pool_queue :: string
  pool_rejected :: string
  pool_queue_size :: string

text \<open>
  One node of \<open>nodes.stats\<close>: \<open>name\<close>, \<open>jvm.mem.heap_used_percent\<close>,
  \<open>jvm.gc.collectors.old.collection_count\<close>, \<open>os.cpu.percent\<close> and, for each entry of
  \<open>thread_pool\<close>, its \<open>rejected\<close> count.
\<close>

record node =
  node_name :: string
  heap_used_percent :: int
  old_collection_count :: int
  cpu_percent :: int
  thread_pool_rejected :: "(string \<times> int) list"

text \<open>
  \<open>indices[indexName].total\<close> of \<open>indices.stats\<close>: \<open>refresh.total\<close>,
  \<open>refresh.total_time_in_millis\<close>, \<open>indexing.index_total\<close>,
  \<open>indexing.index_time_in_millis\<close>.
\<close>

record indexTotal =
  refresh_total :: int
  refresh_total_time_in_millis :: int
  indexing_index_total :: int
  indexing_index_time_in_millis :: int

text \<open>The body of \<open>cluster.getSettings\<close> with flat settings.\<close>

record clusterSettings =
  persistent :: "(string \<times> string) list"
  defaults :: "(string \<times> string) list"

record pendingTask =
  task_priority :: string
  task_source :: string
  time_in_queue_millis :: int

text \<open>One entry of \<open>tasks.list\<close>, with its key as \<open>task_id\<close>.\<close>

record task =
  task_id :: string
  task_action :: "string option"
  running_time_in_nanos :: int

text \<open>What \<open>checkActiveTasks\<close> returns.\<close>

record activeTasks =
  tasks_total :: int
  searchTasks :: int
  longRunning5s :: int
  longRunning10s :: int
  longRunning30s :: int
  tasks_top :: "task list"

text \<open>One node of \<open>nodes.stats\<close> with metric \<open>breaker\<close>.\<close>

record breakerNode =
  breaker_node_name :: string
  breakers :: "(string \<times> int) list"

text \<open>
  In \<open>breakers\<close> each breaker name is paired with its \<open>tripped\<close> count. What
  \<open>checkCircuitBreakerStatus\<close> returns:
\<close>

record circuitBreakerStatus =
  breaker_nodes :: "breakerNode list"
  totalTrips :: int

text \<open>
  One node of \<open>nodes.stats\<close> with metric \<open>indices\<close>: the \<open>evictions\<close> of
  \<open>indices.query_cache\<close>, \<open>indices.fielddata\<close> and \<open>indices.request_cache\<close>, each
  \<open>None\<close> when the node has no such object.
\<close>

record cacheNode =
  cache_node_name :: string
  query_cache_evictions :: "int option"
  fielddata_evictions :: "int option"
  request_cache_evictions :: "int option"

text \<open>What \<open>checkCacheMetrics\<close> returns.\<close>

record cacheMetrics =
  queryCacheEvictions :: int
  fieldDataEvictions :: int
  cache_nodes :: "cacheNode list"

text \<open>\<open>indices[indexName].total.segments\<close>: \<open>count\<close> and \<open>memory_in_bytes\<close>.\<close>

record segments =
  segments_count :: int
  memory_in_bytes :: int

text \<open>What \<open>checkSegmentStats\<close> returns; \<open>segment_count\<close> is its \<open>count\<close>.\<close>

record segmentStats =
  segment_count :: int
  memoryInBytes :: int
  segments_raw :: segments

text \<open>What \<open>checkQueueMetrics\<close> returns; \<open>maxSaturation\<close> is \<open>None\<close> for \<open>NaN\<close>.\<close>

record queueMetrics =
  maxSaturation :: "rat option"
  poolData :: "pool list"

text \<open>What \<open>checkHotThreads\<close> returns; \<open>hot_summary\<close> is its \<open>summary\<close>.\<close>

record hotThreads =
  hot_summary :: string

subsection \<open>The snapshot\<close>

text \<open>
  An entry of \<open>critical_issues\<close> or \<open>warnings\<close>. The source pushes a formatted
  string; each constructor stands for one of its template literals and carries the values
  that the literal interpolates, before \<open>toUpperCase\<close>, \<open>toFixed\<close> and
  \<open>toLocaleString\<close>.
\<close>

datatype finding =
    ClusterRed
  | ClusterYellow
  | PoolRejections string string
  | PoolQueueFull string rat
  | NodeHeapCritical string int
  | NodeHeapHigh string int
  | NodeCpuCritical string int
  | NodeCpuHigh string int
  | NodeOldGC string int
  | RefreshCritical rat
  | RefreshHigh rat
  | PendingTasks int
  | QueriesOver30s int
  | QueriesOver10s int
  | QueriesOver5s int
  | BreakersTripped int
  | QueueSaturationCritical rat
  | QueueSaturationHigh rat
  | SegmentsGreenDot int
  | SegmentsUserRooms int
  | QueryCacheEvictions int
  | FieldDataEvictions int

record summary =
  critical_issues :: "finding list"
  warnings :: "finding list"
  health_status :: string
  active_searches :: int
  long_running_queries_5s :: int
  long_running_queries_10s :: int
  long_running_queries_30s :: int
  circuit_breaker_trips :: int
  search_queue_saturation_pct :: rat

text \<open>\<open>interface MetricsResult\<close>; a group is \<open>None\<close> when it is \<open>null\<close>.\<close>

record MetricsResult =
  timestamp :: string
  clusterHealth :: "clusterHealth option"
  threadPoolStats :: "pool list option"
  nodeStats :: "node list option"
  indexStats :: "indexTotal option"
  indexStatsUserRooms :: "indexTotal option"
  clusterStats :: "clusterSettings option"
  pendingTasks :: "pendingTask list option"
  activeTasks :: "activeTasks option"
  circuitBreakerStatus :: "circuitBreakerStatus option"
  cacheMetrics :: "cacheMetrics option"
  segmentStats :: "segmentStats option"
  segmentStatsUserRooms :: "segmentStats option"
  hotThreads :: "hotThreads option"
  queueMetrics :: "queueMetrics option"
  summary :: summary

subsection \<open>\<open>checkNodeStats\<close>: the console annotations\<close>

text \<open>
  The text appended to a printed percentage: \<open>NoMarker\<close> for the empty string,
  \<open>HIGH\<close> for the warning-sign text "HIGH", \<open>CRITICAL\<close> for the red-circle text
  "CRITICAL".
\<close>

datatype marker = NoMarker | HIGH | CRITICAL

text \<open>
  \<open>const heapWarning = heapUsedPercent > 75 ? HIGH : heapUsedPercent > 85 ? CRITICAL : ''\<close>
\<close>

definition heapWarning :: "int \<Rightarrow> marker" where
  "heapWarning heapUsedPercent =
     (if heapUsedPercent > 75 then HIGH
      else if heapUsedPercent > 85 then CRITICAL else NoMarker)"

text \<open>\<open>const cpuWarning = cpuPercent > 80 ? HIGH : cpuPercent > 90 ? CRITICAL : ''\<close>\<close>

definition cpuWarning :: "int \<Rightarrow> marker" where
  "cpuWarning cpuPercent =
     (if cpuPercent > 80 then HIGH else if cpuPercent > 90 then CRITICAL else NoMarker)"

text \<open>The annotations \<open>checkNodeStats\<close> prints, node by node: heap, then CPU.\<close>

definition node_annotations :: "node list \<Rightarrow> (marker \<times> marker) list" where
  "node_annotations nodes =
     map (\<lambda>n. (heapWarning (heap_used_percent n), cpuWarning (cpu_percent n))) nodes"

subsection \<open>The fetches\<close>

text \<open>
  Every \<open>check...\<close> method awaits one call of the client and works on its body. The
  outcome of the call is the method's argument here: \<open>Inl e\<close> when the call rejects
  with \<open>e\<close>, \<open>Inr b\<close> when it resolves with body \<open>b\<close>. A method without
  \<open>try\<close>/\<open>catch\<close> returns \<open>Inl e\<close> for the exception it lets through; a method
  that catches returns its fallback value. Console output is left out.
\<close>

text \<open>
  \<open>initializeOpenSearchClient\<close>: the parameter-store answer is
  \<open>parameterResponse.Parameter?.Value\<close>; an absent or empty value throws. Then the
  signer and \<open>new Client({..., node: host})\<close> are built, which can throw as well (an
  invalid URL is a TypeError): \<open>newClient host\<close> is that exception, if any. The
  \<open>catch\<close> rethrows whatever was thrown. The result is the host the client is built
  for.
\<close>

definition initializeOpenSearchClient ::
  "js_error + string option \<Rightarrow> (string \<Rightarrow> js_error option) \<Rightarrow> js_error + string" where
  "initializeOpenSearchClient parameterResponse newClient =
     (case parameterResponse of
        Inl e \<Rightarrow> Inl e
      | Inr None \<Rightarrow> Inl (Error ''Failed to retrieve OpenSearch URL from Parameter Store'')
      | Inr (Some host) \<Rightarrow>
          if host = [] then Inl (Error ''Failed to retrieve OpenSearch URL from Parameter Store'')
          else (case newClient host of Some e \<Rightarrow> Inl e | None \<Rightarrow> Inr host))"

text \<open>\<open>checkClusterHealth\<close>: no \<open>catch\<close>; returns \<open>health.body\<close>.\<close>

definition checkClusterHealth :: "js_error + clusterHealth \<Rightarrow> js_error + clusterHealth" where
  "checkClusterHealth health = (case health of Inl e \<Rightarrow> Inl e | Inr b \<Rightarrow> Inr b)"

text \<open>\<open>checkThreadPools\<close>: no \<open>catch\<close>; keeps the rows of six pools.\<close>

definition checkThreadPools :: "js_error + pool list \<Rightarrow> js_error + pool list" where
  "checkThreadPools stats =
     (case stats of
        Inl e \<Rightarrow> Inl e
      | Inr b \<Rightarrow>
          (let pools = [''write'', ''bulk'', ''search'', ''get'', ''index'', ''refresh''];
               poolData = filter (\<lambda>p. pool_name p \<in> set pools) b
           in Inr poolData))"

text \<open>\<open>checkNodeStats\<close>: no \<open>catch\<close>; returns the nodes.\<close>

definition checkNodeStats :: "js_error + node list \<Rightarrow> js_error + node list" where
  "checkNodeStats stats = (case stats of Inl e \<Rightarrow> Inl e | Inr nodes \<Rightarrow> Inr nodes)"

text \<open>
  \<open>checkIndexStats(indexName)\<close>: the body is \<open>stats.body.indices[indexName]\<close>,
  \<open>None\<close> when the index is missing; a rejection is caught and gives \<open>null\<close>.
\<close>

definition checkIndexStats :: "js_error + indexTotal option \<Rightarrow> indexTotal option" where
  "checkIndexStats stats =
     (case stats of Inl e \<Rightarrow> None | Inr None \<Rightarrow> None | Inr (Some indexData) \<Rightarrow> Some indexData)"

record indexSettings =
  number_of_shards :: string
  number_of_replicas :: string
  refresh_interval :: "string option"

text \<open>\<open>checkIndexSettings(indexName)\<close>: a rejection is caught and gives \<open>null\<close>.\<close>

definition checkIndexSettings :: "js_error + indexSettings option \<Rightarrow> indexSettings option" where
  "checkIndexSettings settings = (case settings of Inl e \<Rightarrow> None | Inr b \<Rightarrow> b)"

text \<open>\<open>checkClusterSettings\<close>: no \<open>catch\<close>; returns \<open>settings.body\<close>.\<close>

definition checkClusterSettings :: "js_error + clusterSettings \<Rightarrow> js_error + clusterSettings"
  where
  "checkClusterSettings settings = (case settings of Inl e \<Rightarrow> Inl e | Inr b \<Rightarrow> Inr b)"

text \<open>\<open>checkPendingTasks\<close>: no \<open>catch\<close>; returns \<open>tasks.body.tasks\<close>.\<close>

definition checkPendingTasks :: "js_error + pendingTask list \<Rightarrow> js_error + pendingTask list"
  where
  "checkPendingTasks tasks = (case tasks of Inl e \<Rightarrow> Inl e | Inr b \<Rightarrow> Inr b)"

text \<open>\<open>t.action?.includes('search') || t.action?.includes('query')\<close>\<close>

definition is_search_task :: "task \<Rightarrow> bool" where
  "is_search_task t =
     (case task_action t of
        None \<Rightarrow> False
      | Some a \<Rightarrow> str_includes a ''search'' \<or> str_includes a ''query'')"

text \<open>\<open>checkActiveTasks\<close>: a rejection is caught and gives the all-zero object.\<close>

definition checkActiveTasks :: "js_error + task list \<Rightarrow> activeTasks" where
  "checkActiveTasks tasks =
     (case tasks of
        Inl e \<Rightarrow>
          \<lparr>tasks_total = 0, searchTasks = 0, longRunning5s = 0, longRunning10s = 0,
           longRunning30s = 0, tasks_top = []\<rparr>
      | Inr taskList \<Rightarrow>
          (let searchTasks = filter is_search_task taskList;
               longRunning5s = filter (\<lambda>t. running_time_in_nanos t > 5000000000) searchTasks;
               longRunning10s = filter (\<lambda>t. running_time_in_nanos t > 10000000000) searchTasks;
               longRunning30s = filter (\<lambda>t. running_time_in_nanos t > 30000000000) searchTasks
           in \<lparr>tasks_total = int (length taskList),
               searchTasks = int (length searchTasks),
               longRunning5s = int (length longRunning5s),
               longRunning10s = int (length longRunning10s),
               longRunning30s = int (length longRunning30s),
               tasks_top = take 20 searchTasks\<rparr>))"

text \<open>
  \<open>checkCircuitBreakerStatus\<close>: \<open>totalTrips\<close> adds the \<open>tripped\<close> counts of the
  breakers named parent, request and fielddata over all nodes; a rejection is caught.
\<close>

definition node_trips :: "breakerNode \<Rightarrow> int" where
  "node_trips n =
     sum_list (map snd (filter (\<lambda>(breakerName, tripped).
        breakerName = ''parent'' \<or> breakerName = ''request'' \<or> breakerName = ''fielddata'')
        (breakers n)))"

definition checkCircuitBreakerStatus :: "js_error + breakerNode list \<Rightarrow> circuitBreakerStatus"
  where
  "checkCircuitBreakerStatus stats =
     (case stats of
        Inl e \<Rightarrow> \<lparr>breaker_nodes = [], totalTrips = 0\<rparr>
      | Inr nodes \<Rightarrow> \<lparr>breaker_nodes = nodes, totalTrips = sum_list (map node_trips nodes)\<rparr>)"

text \<open>\<open>checkCacheMetrics\<close>: the two eviction totals; a rejection is caught.\<close>

definition checkCacheMetrics :: "js_error + cacheNode list \<Rightarrow> cacheMetrics" where
  "checkCacheMetrics stats =
     (case stats of
        Inl e \<Rightarrow> \<lparr>queryCacheEvictions = 0, fieldDataEvictions = 0, cache_nodes = []\<rparr>
      | Inr nodes \<Rightarrow>
          \<lparr>queryCacheEvictions = sum_list (map (\<lambda>n. int_or0 (query_cache_evictions n)) nodes),
           fieldDataEvictions = sum_list (map (\<lambda>n. int_or0 (fielddata_evictions n)) nodes),
           cache_nodes = nodes\<rparr>)"

text \<open>\<open>checkSegmentStats(indexName)\<close>: \<open>null\<close> for a missing index or a rejection.\<close>

definition checkSegmentStats :: "js_error + segments option \<Rightarrow> segmentStats option" where
  "checkSegmentStats stats =
     (case stats of
        Inl e \<Rightarrow> None
      | Inr None \<Rightarrow> None
      | Inr (Some sg) \<Rightarrow>
          Some \<lparr>segment_count = segments_count sg, memoryInBytes = memory_in_bytes sg,
                segments_raw = sg\<rparr>)"

text \<open>
  \<open>checkQueueMetrics\<close>. For one row:
  \<open>saturation = queueSize > 0 ? ((queueDepth / queueSize) * 100).toFixed(2) : '0'\<close>,
  then \<open>maxSaturation = Math.max(maxSaturation, parseFloat(saturation))\<close>. The
  division and the multiplication are those of doubles.
\<close>

definition saturation :: "pool \<Rightarrow> rat option" where
  "saturation p =
     (case parseInt (pool_queue_size p) of
        None \<Rightarrow> Some 0
      | Some queueSize \<Rightarrow>
          if queueSize > 0
          then (case parseInt (pool_queue p) of
                  None \<Rightarrow> None
                | Some queueDepth \<Rightarrow> Some (toFixed2
                          (to_double (to_double (of_int queueDepth / of_int queueSize) * 100))))
          else Some 0)"

definition checkQueueMetrics :: "js_error + pool list \<Rightarrow> queueMetrics" where
  "checkQueueMetrics stats =
     (case stats of
        Inl e \<Rightarrow> \<lparr>maxSaturation = Some 0, poolData = []\<rparr>
      | Inr b \<Rightarrow>
          (let pools = [''write'', ''bulk'', ''search'', ''get''];
               poolData = filter (\<lambda>p. pool_name p \<in> set pools) b
           in \<lparr>maxSaturation =
                 fold (\<lambda>poolName m.
                         fold (\<lambda>p m'. js_max m' (saturation p))
                           (filter (\<lambda>p. pool_name p = poolName) poolData) m)
                   pools (Some 0),
               poolData = poolData\<rparr>))"

text \<open>\<open>output.split('\n')\<close> and \<open>lines.join('\n')\<close>.\<close>

fun split_lines :: "string \<Rightarrow> string list" where
  "split_lines [] = [[]]"
| "split_lines (c # cs) =
     (if c = CHR 0x0A then [] # split_lines cs
      else (case split_lines cs of l # ls \<Rightarrow> (c # l) # ls | [] \<Rightarrow> [[c]]))"

fun join_lines :: "string list \<Rightarrow> string" where
  "join_lines [] = []"
| "join_lines [l] = l"
| "join_lines (l # ls) = l @ [CHR 0x0A] @ join_lines ls"

text \<open>\<open>checkHotThreads\<close>: the first 15 of the first 30 lines; a rejection is caught.\<close>

definition checkHotThreads :: "js_error + string \<Rightarrow> hotThreads" where
  "checkHotThreads hot =
     (case hot of
        Inl e \<Rightarrow> \<lparr>hot_summary = ''Not available''\<rparr>
      | Inr output \<Rightarrow>
          (let lines = take 30 (split_lines output)
           in \<lparr>hot_summary = join_lines (take 15 lines)\<rparr>))"

subsection \<open>\<open>analyzeCriticalIssues\<close>\<close>

text \<open>
  The state of the analysis: the local arrays \<open>issues\<close> and \<open>warnings\<close> (here
  \<open>warns\<close>) and the object \<open>metrics.summary\<close> that some blocks write to.
\<close>

record analysis =
  issues :: "finding list"
  warns :: "finding list"
  summ :: summary

definition push_issue :: "finding \<Rightarrow> analysis \<Rightarrow> analysis" where
  "push_issue f a = a\<lparr>issues := issues a @ [f]\<rparr>"

definition push_warning :: "finding \<Rightarrow> analysis \<Rightarrow> analysis" where
  "push_warning f a = a\<lparr>warns := warns a @ [f]\<rparr>"

text \<open>"Check cluster health"\<close>

definition check_cluster_status :: "clusterHealth \<Rightarrow> analysis \<Rightarrow> analysis" where
  "check_cluster_status h a =
     (if cluster_status h = ''red'' then push_issue ClusterRed a
      else if cluster_status h = ''yellow'' then push_warning ClusterYellow a
      else a)"

text \<open>
  "Check thread pool rejections": the body of the \<open>forEach\<close> over \<open>threadPoolStats\<close>.
  \<open>queueDepth > queueSize * 0.8\<close> is compared exactly.
\<close>

definition check_pool :: "pool \<Rightarrow> analysis \<Rightarrow> analysis" where
  "check_pool p a =
     (let a1 = (if nan_gt (parseInt (pool_rejected p)) 0
                then push_issue (PoolRejections (pool_name p) (pool_rejected p)) a
                else a);
          queueSize = parseInt (pool_queue_size p);
          queueDepth = parseInt (pool_queue p)
      in case (queueSize, queueDepth) of
           (Some qs, Some qd) \<Rightarrow>
             if qs > 0 \<and> (of_int qd :: rat) > of_int qs * (8 / 10)
             then push_warning (PoolQueueFull (pool_name p) (of_int qd / of_int qs * 100)) a1
             else a1
         | _ \<Rightarrow> a1)"

text \<open>"Check JVM pressure": the body of the \<open>forEach\<close> over \<open>nodeStats\<close>.\<close>

definition check_node :: "node \<Rightarrow> analysis \<Rightarrow> analysis" where
  "check_node n a =
     (let heapPercent = heap_used_percent n;
          a1 = (if heapPercent > 85 then push_issue (NodeHeapCritical (node_name n) heapPercent) a
                else if heapPercent > 75
                then push_warning (NodeHeapHigh (node_name n) heapPercent) a
                else a);
          cpuPercent = cpu_percent n;
          a2 = (if cpuPercent > 90 then push_issue (NodeCpuCritical (node_name n) cpuPercent) a1
                else if cpuPercent > 80
                then push_warning (NodeCpuHigh (node_name n) cpuPercent) a1
                else a1);
          oldGC = old_collection_count n
      in if oldGC > 10 then push_warning (NodeOldGC (node_name n) oldGC) a2 else a2)"

text \<open>"Check refresh latency"\<close>

definition check_refresh :: "indexTotal option \<Rightarrow> analysis \<Rightarrow> analysis" where
  "check_refresh ist a =
     (case ist of
        None \<Rightarrow> a
      | Some st \<Rightarrow>
          (let avgRefreshTime =
                 (if refresh_total st > 0
                  then of_int (refresh_total_time_in_millis st) / of_int (refresh_total st)
                  else (0 :: rat))
           in if avgRefreshTime > 100 then push_issue (RefreshCritical avgRefreshTime) a
              else if avgRefreshTime > 50 then push_warning (RefreshHigh avgRefreshTime) a
              else a))"

text \<open>"Check pending tasks"\<close>

definition check_pending :: "pendingTask list \<Rightarrow> analysis \<Rightarrow> analysis" where
  "check_pending pt a =
     (if int (length pt) > 10 then push_warning (PendingTasks (int (length pt))) a else a)"

text \<open>"Check active long-running queries", with its "Store for summary".\<close>

definition check_active :: "activeTasks option \<Rightarrow> analysis \<Rightarrow> analysis" where
  "check_active act a =
     (case act of
        None \<Rightarrow> a
      | Some t \<Rightarrow>
          (let a1 = (if longRunning30s t > 0 then push_issue (QueriesOver30s (longRunning30s t)) a
                     else a);
               a2 = (if longRunning10s t > 0
                     then push_warning (QueriesOver10s (longRunning10s t)) a1 else a1);
               a3 = (if longRunning5s t > 5
                     then push_warning (QueriesOver5s (longRunning5s t)) a2 else a2)
           in a3\<lparr>summ := (summ a3)\<lparr>active_searches := searchTasks t,
                                     long_running_queries_5s := longRunning5s t,
                                     long_running_queries_10s := longRunning10s t,
                                     long_running_queries_30s := longRunning30s t\<rparr>\<rparr>))"

text \<open>"Check circuit breaker trips"\<close>

definition check_breakers :: "circuitBreakerStatus option \<Rightarrow> analysis \<Rightarrow> analysis" where
  "check_breakers cb a =
     (case cb of
        None \<Rightarrow> a
      | Some c \<Rightarrow>
          if totalTrips c > 0
          then (push_issue (BreakersTripped (totalTrips c)) a)
                 \<lparr>summ := (summ a)\<lparr>circuit_breaker_trips := totalTrips c\<rparr>\<rparr>
          else a)"

text \<open>"Check queue saturation (causes timeouts)"\<close>

definition check_queue :: "queueMetrics option \<Rightarrow> analysis \<Rightarrow> analysis" where
  "check_queue qm a =
     (case qm of
        None \<Rightarrow> a
      | Some q \<Rightarrow>
          (case maxSaturation q of
             None \<Rightarrow> a
           | Some m \<Rightarrow>
               if m > 80
               then (push_issue (QueueSaturationCritical m) a)
                      \<lparr>summ := (summ a)\<lparr>search_queue_saturation_pct := m\<rparr>\<rparr>
               else if m > 50
               then (push_warning (QueueSaturationHigh m) a)
                      \<lparr>summ := (summ a)\<lparr>search_queue_saturation_pct := m\<rparr>\<rparr>
               else a))"

text \<open>"Check segment count (slows searches)"\<close>

definition check_segments ::
  "segmentStats option \<Rightarrow> segmentStats option \<Rightarrow> analysis \<Rightarrow> analysis" where
  "check_segments sg sgu a =
     (let a1 = (case sg of None \<Rightarrow> a
                | Some g \<Rightarrow> if segment_count g > 500
                    then push_warning (SegmentsGreenDot (segment_count g)) a else a)
      in case sgu of None \<Rightarrow> a1
         | Some u \<Rightarrow> if segment_count u > 500
             then push_warning (SegmentsUserRooms (segment_count u)) a1 else a1)"

text \<open>"Check cache evictions (memory pressure indicator)"\<close>

definition check_cache :: "cacheMetrics option \<Rightarrow> analysis \<Rightarrow> analysis" where
  "check_cache cm a =
     (case cm of
        None \<Rightarrow> a
      | Some c \<Rightarrow>
          (let a1 = (if queryCacheEvictions c > 10000
                     then push_warning (QueryCacheEvictions (queryCacheEvictions c)) a else a)
           in if fieldDataEvictions c > 1000
              then push_warning (FieldDataEvictions (fieldDataEvictions c)) a1 else a1))"

text \<open>The blocks in source order, from empty arrays and the snapshot's own summary.\<close>

definition analyze ::
  "MetricsResult \<Rightarrow> clusterHealth \<Rightarrow> pool list \<Rightarrow> node list \<Rightarrow> pendingTask list \<Rightarrow> analysis"
  where
  "analyze metrics h tp ns pt =
     check_cache (cacheMetrics metrics)
       (check_segments (segmentStats metrics) (segmentStatsUserRooms metrics)
         (check_queue (queueMetrics metrics)
           (check_breakers (circuitBreakerStatus metrics)
             (check_active (activeTasks metrics)
               (check_pending pt
                 (check_refresh (indexStats metrics)
                   (fold check_node ns
                     (fold check_pool tp
                       (check_cluster_status h
                         \<lparr>issues = [], warns = [], summ = summary metrics\<rparr>)))))))))"

text \<open>
  \<open>analyzeCriticalIssues(metrics)\<close>. The source reads \<open>metrics.clusterHealth.status\<close>,
  \<open>metrics.threadPoolStats.forEach\<close>, \<open>metrics.nodeStats.forEach\<close> and
  \<open>metrics.pendingTasks.length\<close> unguarded: a \<open>null\<close> there is a TypeError, raised
  before anything is written to \<open>metrics\<close>. Otherwise \<open>metrics.summary\<close> is replaced at
  the end.
\<close>

definition analyzeCriticalIssues :: "MetricsResult \<Rightarrow> js_error + MetricsResult" where
  "analyzeCriticalIssues metrics =
     (case (clusterHealth metrics, threadPoolStats metrics, nodeStats metrics,
            pendingTasks metrics) of
        (Some h, Some tp, Some ns, Some pt) \<Rightarrow>
          (let a = analyze metrics h tp ns pt
           in Inr (metrics\<lparr>summary :=
                 \<lparr>critical_issues = issues a,
                  warnings = warns a,
                  health_status = cluster_status h,
                  active_searches = active_searches (summ a),
                  long_running_queries_5s = long_running_queries_5s (summ a),
                  long_running_queries_10s = long_running_queries_10s (summ a),
                  long_running_queries_30s = long_running_queries_30s (summ a),
                  circuit_breaker_trips = circuit_breaker_trips (summ a),
                  search_queue_saturation_pct = search_queue_saturation_pct (summ a)\<rparr>\<rparr>))
      | _ \<Rightarrow> Inl TypeError)"

subsection \<open>\<open>saveSummaryCSV\<close>\<close>

text \<open>
  A cell of the row array before \<open>join(',')\<close>: a string, a number, or the string that
  \<open>toFixed(2)\<close> makes of a number.
\<close>

datatype cell = CellStr string | CellNum int | CellFixed2 rat

definition headers :: "string list" where
  "headers =
     [''timestamp'', ''cluster_status'', ''active_nodes'', ''pending_tasks'',
      ''write_rejections'', ''bulk_rejections'', ''search_rejections'',
      ''jvm_memory_percent'', ''cpu_percent'', ''avg_refresh_time_ms'', ''indexing_rate'',
      ''critical_issues_count'', ''warnings_count'', ''active_searches'',
      ''long_running_queries_5s'', ''long_running_queries_10s'',
      ''long_running_queries_30s'', ''circuit_breaker_trips'',
      ''search_queue_saturation_pct'', ''segment_count_pms_green_dot'',
      ''segment_count_pms_user_rooms'', ''query_cache_evictions'', ''field_data_evictions'']"

text \<open>\<open>metrics.threadPoolStats?.find((p) => p.name === poolName)\<close>\<close>

definition find_pool :: "MetricsResult \<Rightarrow> string \<Rightarrow> pool option" where
  "find_pool metrics poolName =
     (case threadPoolStats metrics of
        None \<Rightarrow> None
      | Some tp \<Rightarrow> find (\<lambda>p. pool_name p = poolName) tp)"

text \<open>\<open>pool?.rejected || 0\<close>: the column as the API gave it, unless missing or empty.\<close>

definition rejected_or0 :: "pool option \<Rightarrow> cell" where
  "rejected_or0 p =
     (case p of None \<Rightarrow> CellNum 0
      | Some q \<Rightarrow> if pool_rejected q = [] then CellNum 0 else CellStr (pool_rejected q))"

text \<open>\<open>const firstNode = metrics.nodeStats?.[0]\<close>\<close>

definition firstNode :: "MetricsResult \<Rightarrow> node option" where
  "firstNode metrics =
     (case nodeStats metrics of
        None \<Rightarrow> None
      | Some ns \<Rightarrow> (case ns of [] \<Rightarrow> None | n # _ \<Rightarrow> Some n))"

definition avgRefreshTime_cell :: "MetricsResult \<Rightarrow> cell" where
  "avgRefreshTime_cell metrics =
     (case indexStats metrics of
        None \<Rightarrow> CellStr ''0''
      | Some st \<Rightarrow>
          if refresh_total st > 0
          then CellFixed2 (of_int (refresh_total_time_in_millis st) / of_int (refresh_total st))
          else CellStr ''0'')"

definition indexingRate_cell :: "MetricsResult \<Rightarrow> cell" where
  "indexingRate_cell metrics =
     (case indexStats metrics of
        None \<Rightarrow> CellStr ''0''
      | Some st \<Rightarrow>
          if indexing_index_time_in_millis st \<noteq> 0
          then CellFixed2 (of_int (indexing_index_total st)
                        / (of_int (indexing_index_time_in_millis st) / 1000))
          else CellStr ''0'')"

text \<open>The array \<open>row\<close>.\<close>

definition csv_row :: "MetricsResult \<Rightarrow> cell list" where
  "csv_row metrics =
     [CellStr (timestamp metrics),
      CellStr (case clusterHealth metrics of
             None \<Rightarrow> ''unknown''
           | Some h \<Rightarrow> if cluster_status h = [] then ''unknown'' else cluster_status h),
      CellNum (int_or0 (map_option number_of_nodes (clusterHealth metrics))),
      CellNum (int_or0 (map_option (\<lambda>pt. int (length pt)) (pendingTasks metrics))),
      rejected_or0 (find_pool metrics ''write''),
      rejected_or0 (find_pool metrics ''bulk''),
      rejected_or0 (find_pool metrics ''search''),
      CellNum (int_or0 (map_option heap_used_percent (firstNode metrics))),
      CellNum (int_or0 (map_option cpu_percent (firstNode metrics))),
      avgRefreshTime_cell metrics,
      indexingRate_cell metrics,
      CellNum (int (length (critical_issues (summary metrics)))),
      CellNum (int (length (warnings (summary metrics)))),
      CellNum (active_searches (summary metrics)),
      CellNum (long_running_queries_5s (summary metrics)),
      CellNum (long_running_queries_10s (summary metrics)),
      CellNum (long_running_queries_30s (summary metrics)),
      CellNum (circuit_breaker_trips (summary metrics)),
      CellFixed2 (search_queue_saturation_pct (summary metrics)),
      CellNum (int_or0 (map_option segment_count (segmentStats metrics))),
      CellNum (int_or0 (map_option segment_count (segmentStatsUserRooms metrics))),
      CellNum (int_or0 (map_option queryCacheEvictions (cacheMetrics metrics))),
      CellNum (int_or0 (map_option fieldDataEvictions (cacheMetrics metrics)))]"

text \<open>
  The summary file is \<open>None\<close> while it does not exist and otherwise its lines. The
  header line is written when the file is created; the row is appended.
\<close>

definition saveSummaryCSV :: "MetricsResult \<Rightarrow> cell list list option \<Rightarrow> cell list list" where
  "saveSummaryCSV metrics csvFile =
     (case csvFile of None \<Rightarrow> [map CellStr headers] | Some ls \<Rightarrow> ls) @ [csv_row metrics]"

subsection \<open>\<open>runFullCheck\<close>\<close>

text \<open>
  The outcomes of the calls of one poll cycle, in the order the cycle makes them, and the
  time stamp it takes first. \<open>new_client host\<close> is the exception that building the
  client for \<open>host\<close> throws, if any. The two \<open>cat.threadPool\<close> calls and the three
  \<open>nodes.stats\<close> calls are separate calls with separate outcomes; the \<open>indices\<close>
  calls take the index name.
\<close>

record cluster_api =
  now :: string
  ssm_parameter :: "js_error + string option"
  new_client :: "string \<Rightarrow> js_error option"
  cluster_health :: "js_error + clusterHealth"
  cat_threadPool :: "js_error + pool list"
  nodes_stats :: "js_error + node list"
  indices_stats :: "string \<Rightarrow> js_error + indexTotal option"
  indices_getSettings :: "string \<Rightarrow> js_error + indexSettings option"
  cluster_getSettings :: "js_error + clusterSettings"
  cluster_pendingTasks :: "js_error + pendingTask list"
  tasks_list :: "js_error + task list"
  nodes_stats_breaker :: "js_error + breakerNode list"
  nodes_stats_indices :: "js_error + cacheNode list"
  indices_stats_segments :: "string \<Rightarrow> js_error + segments option"
  cat_threadPool_queue :: "js_error + pool list"
  nodes_hotThreads :: "js_error + string"

text \<open>
  The file-system calls of "Save to file", in source order: \<open>fs.mkdirSync\<close> of the
  output directory, \<open>fs.writeFileSync\<close> of the JSON file, \<open>fs.writeFileSync\<close> of
  the header line and \<open>fs.appendFileSync\<close> of the row.
\<close>

datatype fs_call = MkdirSync | WriteJson | WriteHeader | AppendRow

text \<open>
  The directory \<open>metrics-output\<close>: whether it exists, the snapshots written as JSON
  files, the summary file (\<open>None\<close> while it does not exist), and for each file-system
  call the exception it throws when made, if any.
\<close>

record files =
  output_dir :: bool
  json_files :: "MetricsResult list"
  csv_file :: "cell list list option"
  fs_error :: "fs_call \<Rightarrow> js_error option"

text \<open>The object \<open>metrics\<close> as \<open>runFullCheck\<close> creates it.\<close>

definition initial_metrics :: "string \<Rightarrow> MetricsResult" where
  "initial_metrics ts =
     \<lparr>timestamp = ts, clusterHealth = None, threadPoolStats = None, nodeStats = None,
      indexStats = None, indexStatsUserRooms = None, clusterStats = None,
      pendingTasks = None, activeTasks = None, circuitBreakerStatus = None,
      cacheMetrics = None, segmentStats = None, segmentStatsUserRooms = None,
      hotThreads = None, queueMetrics = None,
      summary =
        \<lparr>critical_issues = [], warnings = [], health_status = ''unknown'',
         active_searches = 0, long_running_queries_5s = 0, long_running_queries_10s = 0,
         long_running_queries_30s = 0, circuit_breaker_trips = 0,
         search_queue_saturation_pct = 0\<rparr>\<rparr>"

text \<open>
  "Save to file": the directory is created when it does not exist, the JSON file of the
  snapshot is written, then \<open>saveSummaryCSV\<close> writes the header line when the summary
  file does not exist and appends the row. The first call that throws ends the block with
  its exception; when none throws the directory holds what \<open>saveSummaryCSV\<close> above
  describes.
\<close>

definition save_files :: "MetricsResult \<Rightarrow> files \<Rightarrow> js_error + files" where
  "save_files metrics fs =
     (case (if output_dir fs then None else fs_error fs MkdirSync) of
        Some e \<Rightarrow> Inl e
      | None \<Rightarrow>
     (case fs_error fs WriteJson of
        Some e \<Rightarrow> Inl e
      | None \<Rightarrow>
     (case (if csv_file fs = None then fs_error fs WriteHeader else None) of
        Some e \<Rightarrow> Inl e
      | None \<Rightarrow>
     (case fs_error fs AppendRow of
        Some e \<Rightarrow> Inl e
      | None \<Rightarrow>
          Inr (fs\<lparr>output_dir := True,
                  json_files := json_files fs @ [metrics],
                  csv_file := Some (saveSummaryCSV metrics (csv_file fs))\<rparr>)))))"

text \<open>
  \<open>runFullCheck(saveToFile)\<close>. Its \<open>catch\<close> logs and rethrows, so the first exception
  of the \<open>try\<close> block, the file-system calls included, is the result and nothing is
  returned. The assignments run in source order; the two \<open>checkIndexSettings\<close> calls
  are awaited and their results dropped.
\<close>

definition runFullCheck ::
  "bool \<Rightarrow> cluster_api \<Rightarrow> files \<Rightarrow> js_error + MetricsResult \<times> files" where
  "runFullCheck saveToFile api fs =
     (let m0 = initial_metrics (now api)
      in case initializeOpenSearchClient (ssm_parameter api) (new_client api) of
        Inl e \<Rightarrow> Inl e
      | Inr host \<Rightarrow>
     (case checkClusterHealth (cluster_health api) of
        Inl e \<Rightarrow> Inl e
      | Inr h \<Rightarrow>
     (case checkThreadPools (cat_threadPool api) of
        Inl e \<Rightarrow> Inl e
      | Inr tp \<Rightarrow>
     (case checkNodeStats (nodes_stats api) of
        Inl e \<Rightarrow> Inl e
      | Inr ns \<Rightarrow>
     (let m1 = m0\<lparr>clusterHealth := Some h, threadPoolStats := Some tp, nodeStats := Some ns\<rparr>;
          m2 = m1\<lparr>indexStats := checkIndexStats (indices_stats api ''pms_green_dot''),
                  indexStatsUserRooms := checkIndexStats (indices_stats api ''pms-user-rooms'')\<rparr>;
          s1 = checkIndexSettings (indices_getSettings api ''pms_green_dot'');
          s2 = checkIndexSettings (indices_getSettings api ''pms-user-rooms'')
      in case checkClusterSettings (cluster_getSettings api) of
        Inl e \<Rightarrow> Inl e
      | Inr cs \<Rightarrow>
     (case checkPendingTasks (cluster_pendingTasks api) of
        Inl e \<Rightarrow> Inl e
      | Inr pt \<Rightarrow>
     (let m3 = m2\<lparr>clusterStats := Some cs, pendingTasks := Some pt\<rparr>;
          m4 = m3\<lparr>activeTasks := Some (checkActiveTasks (tasks_list api)),
                  circuitBreakerStatus :=
                    Some (checkCircuitBreakerStatus (nodes_stats_breaker api)),
                  cacheMetrics := Some (checkCacheMetrics (nodes_stats_indices api)),
                  segmentStats := checkSegmentStats (indices_stats_segments api ''pms_green_dot''),
                  segmentStatsUserRooms :=
                    checkSegmentStats (indices_stats_segments api ''pms-user-rooms''),
                  queueMetrics := Some (checkQueueMetrics (cat_threadPool_queue api)),
                  hotThreads := Some (checkHotThreads (nodes_hotThreads api))\<rparr>
      in case analyzeCriticalIssues m4 of
        Inl e \<Rightarrow> Inl e
      | Inr metrics \<Rightarrow>
          if saveToFile
          then (case save_files metrics fs of
                  Inl e \<Rightarrow> Inl e
                | Inr fs' \<Rightarrow> Inr (metrics, fs'))
          else Inr (metrics, fs))))))))"

subsection \<open>The entries of the two lists in closed form\<close>

text \<open>
  What each block of \<open>analyzeCriticalIssues\<close> appends to \<open>issues\<close> and to
  \<open>warnings\<close>, written as lists. They are proved equal to the blocks below and serve
  to state and prove the properties.
\<close>

definition cluster_issues :: "clusterHealth \<Rightarrow> finding list" where
  "cluster_issues h = (if cluster_status h = ''red'' then [ClusterRed] else [])"

definition cluster_warnings :: "clusterHealth \<Rightarrow> finding list" where
  "cluster_warnings h =
     (if cluster_status h \<noteq> ''red'' \<and> cluster_status h = ''yellow'' then [ClusterYellow]
      else [])"

definition pool_issues :: "pool \<Rightarrow> finding list" where
  "pool_issues p =
     (if nan_gt (parseInt (pool_rejected p)) 0
      then [PoolRejections (pool_name p) (pool_rejected p)] else [])"

definition pool_warnings :: "pool \<Rightarrow> finding list" where
  "pool_warnings p =
     (case (parseInt (pool_queue_size p), parseInt (pool_queue p)) of
        (Some qs, Some qd) \<Rightarrow>
          if qs > 0 \<and> (of_int qd :: rat) > of_int qs * (8 / 10)
          then [PoolQueueFull (pool_name p) (of_int qd / of_int qs * 100)] else []
      | _ \<Rightarrow> [])"

definition node_issues :: "node \<Rightarrow> finding list" where
  "node_issues n =
     (if heap_used_percent n > 85 then [NodeHeapCritical (node_name n) (heap_used_percent n)]
      else []) @
     (if cpu_percent n > 90 then [NodeCpuCritical (node_name n) (cpu_percent n)] else [])"

definition node_warnings :: "node \<Rightarrow> finding list" where
  "node_warnings n =
     (if 75 < heap_used_percent n \<and> heap_used_percent n \<le> 85
      then [NodeHeapHigh (node_name n) (heap_used_percent n)] else []) @
     (if 80 < cpu_percent n \<and> cpu_percent n \<le> 90
      then [NodeCpuHigh (node_name n) (cpu_percent n)] else []) @
     (if old_collection_count n > 10 then [NodeOldGC (node_name n) (old_collection_count n)]
      else [])"

definition avg_refresh :: "indexTotal \<Rightarrow> rat" where
  "avg_refresh st =
     (if refresh_total st > 0
      then of_int (refresh_total_time_in_millis st) / of_int (refresh_total st) else 0)"

definition refresh_issues :: "indexTotal option \<Rightarrow> finding list" where
  "refresh_issues ist =
     (case ist of None \<Rightarrow> []
      | Some st \<Rightarrow> if avg_refresh st > 100 then [RefreshCritical (avg_refresh st)] else [])"

definition refresh_warnings :: "indexTotal option \<Rightarrow> finding list" where
  "refresh_warnings ist =
     (case ist of None \<Rightarrow> []
      | Some st \<Rightarrow>
          if 50 < avg_refresh st \<and> avg_refresh st \<le> 100 then [RefreshHigh (avg_refresh st)]
          else [])"

definition pending_warnings :: "pendingTask list \<Rightarrow> finding list" where
  "pending_warnings pt =
     (if int (length pt) > 10 then [PendingTasks (int (length pt))] else [])"

definition active_issues :: "activeTasks option \<Rightarrow> finding list" where
  "active_issues act =
     (case act of None \<Rightarrow> []
      | Some t \<Rightarrow> if longRunning30s t > 0 then [QueriesOver30s (longRunning30s t)] else [])"

definition active_warnings :: "activeTasks option \<Rightarrow> finding list" where
  "active_warnings act =
     (case act of None \<Rightarrow> []
      | Some t \<Rightarrow>
          (if longRunning10s t > 0 then [QueriesOver10s (longRunning10s t)] else []) @
          (if longRunning5s t > 5 then [QueriesOver5s (longRunning5s t)] else []))"

definition breaker_issues :: "circuitBreakerStatus option \<Rightarrow> finding list" where
  "breaker_issues cb =
     (case cb of None \<Rightarrow> []
      | Some c \<Rightarrow> if totalTrips c > 0 then [BreakersTripped (totalTrips c)] else [])"

text \<open>The finite value of \<open>queueMetrics.maxSaturation\<close>, if there is one.\<close>

definition max_saturation :: "queueMetrics option \<Rightarrow> rat option" where
  "max_saturation qm = (case qm of None \<Rightarrow> None | Some q \<Rightarrow> maxSaturation q)"

definition queue_issues :: "queueMetrics option \<Rightarrow> finding list" where
  "queue_issues qm =
     (case max_saturation qm of None \<Rightarrow> []
      | Some m \<Rightarrow> if m > 80 then [QueueSaturationCritical m] else [])"

definition queue_warnings :: "queueMetrics option \<Rightarrow> finding list" where
  "queue_warnings qm =
     (case max_saturation qm of None \<Rightarrow> []
      | Some m \<Rightarrow> if 50 < m \<and> m \<le> 80 then [QueueSaturationHigh m] else [])"

definition segment_warnings :: "segmentStats option \<Rightarrow> segmentStats option \<Rightarrow> finding list"
  where
  "segment_warnings sg sgu =
     (case sg of None \<Rightarrow> []
      | Some g \<Rightarrow> if segment_count g > 500 then [SegmentsGreenDot (segment_count g)] else []) @
     (case sgu of None \<Rightarrow> []
      | Some u \<Rightarrow> if segment_count u > 500 then [SegmentsUserRooms (segment_count u)] else [])"

definition cache_warnings :: "cacheMetrics option \<Rightarrow> finding list" where
  "cache_warnings cm =
     (case cm of None \<Rightarrow> []
      | Some c \<Rightarrow>
          (if queryCacheEvictions c > 10000 then [QueryCacheEvictions (queryCacheEvictions c)]
           else []) @
          (if fieldDataEvictions c > 1000 then [FieldDataEvictions (fieldDataEvictions c)]
           else []))"

definition all_issues ::
  "MetricsResult \<Rightarrow> clusterHealth \<Rightarrow> pool list \<Rightarrow> node list \<Rightarrow> finding list" where
  "all_issues metrics h tp ns =
     cluster_issues h @ concat (map pool_issues tp) @ concat (map node_issues ns) @
     refresh_issues (indexStats metrics) @ active_issues (activeTasks metrics) @
     breaker_issues (circuitBreakerStatus metrics) @ queue_issues (queueMetrics metrics)"

definition all_warnings ::
  "MetricsResult \<Rightarrow> clusterHealth \<Rightarrow> pool list \<Rightarrow> node list \<Rightarrow> pendingTask list
     \<Rightarrow> finding list" where
  "all_warnings metrics h tp ns pt =
     cluster_warnings h @ concat (map pool_warnings tp) @ concat (map node_warnings ns) @
     refresh_warnings (indexStats metrics) @ pending_warnings pt @
     active_warnings (activeTasks metrics) @ queue_warnings (queueMetrics metrics) @
     segment_warnings (segmentStats metrics) (segmentStatsUserRooms metrics) @
     cache_warnings (cacheMetrics metrics)"

text \<open>Entries about cache evictions, and entries about thread-pool queues.\<close>

fun is_cache_finding :: "finding \<Rightarrow> bool" where
  "is_cache_finding (QueryCacheEvictions n) = True"
| "is_cache_finding (FieldDataEvictions n) = True"
| "is_cache_finding f = False"

fun is_queue_finding :: "finding \<Rightarrow> bool" where
  "is_queue_finding (PoolQueueFull nm pct) = True"
| "is_queue_finding (QueueSaturationCritical m) = True"
| "is_queue_finding (QueueSaturationHigh m) = True"
| "is_queue_finding f = False"

subsection \<open>A worked cluster\<close>

text \<open>
  The calls of a poll cycle against a healthy two-node cluster with an idle search pool;
  the examples below change one outcome at a time.
\<close>

definition healthy_api :: cluster_api where
  "healthy_api =
     \<lparr>now = ''2025-01-01T00:00:00.000Z'',
      ssm_parameter = Inr (Some ''https://search.example''),
      new_client = (\<lambda>host. None),
      cluster_health =
        Inr \<lparr>cluster_status = ''green'', number_of_nodes = 2, number_of_pending_tasks = 0\<rparr>,
      cat_threadPool =
        Inr [\<lparr>pool_node_name = ''node-1'', pool_name = ''search'', pool_active = ''1'',
              pool_queue = ''0'', pool_rejected = ''0'', pool_queue_size = ''1000''\<rparr>],
      nodes_stats =
        Inr [\<lparr>node_name = ''node-1'', heap_used_percent = 40, old_collection_count = 0,
               cpu_percent = 10, thread_pool_rejected = []\<rparr>,
             \<lparr>node_name = ''node-2'', heap_used_percent = 60, old_collection_count = 0,
               cpu_percent = 30, thread_pool_rejected = []\<rparr>],
      indices_stats =
        (\<lambda>indexName. Inr (Some \<lparr>refresh_total = 10, refresh_total_time_in_millis = 100,
                                  indexing_index_total = 500,
                                  indexing_index_time_in_millis = 1000\<rparr>)),
      indices_getSettings =
        (\<lambda>indexName. Inr (Some \<lparr>number_of_shards = ''1'', number_of_replicas = ''1'',
                                  refresh_interval = None\<rparr>)),
      cluster_getSettings = Inr \<lparr>persistent = [], defaults = []\<rparr>,
      cluster_pendingTasks = Inr [],
      tasks_list = Inr [],
      nodes_stats_breaker = Inr [\<lparr>breaker_node_name = ''node-1'', breakers = [(''parent'', 0)]\<rparr>],
      nodes_stats_indices =
        Inr [\<lparr>cache_node_name = ''node-1'', query_cache_evictions = Some 0,
               fielddata_evictions = Some 0, request_cache_evictions = Some 0\<rparr>],
      indices_stats_segments =
        (\<lambda>indexName. Inr (Some \<lparr>segments_count = 20, memory_in_bytes = 1000\<rparr>)),
      cat_threadPool_queue =
        Inr [\<lparr>pool_node_name = ''node-1'', pool_name = ''search'', pool_active = ''1'',
              pool_queue = ''0'', pool_rejected = ''0'', pool_queue_size = ''1000''\<rparr>],
      nodes_hotThreads = Inr []\<rparr>"

text \<open>An output directory with no file in it, on a file system that does not fail.\<close>

definition no_files :: files where
  "no_files =
     \<lparr>output_dir = True, json_files = [], csv_file = None, fs_error = (\<lambda>c. None)\<rparr>"

text \<open>The snapshot a poll cycle returned, \<open>None\<close> when it threw.\<close>

definition snapshot_of :: "js_error + MetricsResult \<times> files \<Rightarrow> MetricsResult option" where
  "snapshot_of r = (case r of Inl e \<Rightarrow> None | Inr (metrics, fs) \<Rightarrow> Some metrics)"

section \<open>Properties of the load driver\<close>

subsection \<open>What one iteration does to each counter and breaking-point variable\<close>

lemmas track_defs = track_requests_def track_timeout_def track_errors_def track_s3_def

lemma step_firstTimeoutIteration:
  "firstTimeoutIteration (snd (default_iteration i r s)) =
     (if isTimeout r then latch (firstTimeoutIteration s) i else firstTimeoutIteration s)"
  by (simp add: default_iteration_def track_defs Let_def)

lemma step_firstErrorIteration:
  "firstErrorIteration (snd (default_iteration i r s)) =
     (if isGenericError r then latch (firstErrorIteration s) i else firstErrorIteration s)"
  by (simp add: default_iteration_def track_defs isGenericError_def Let_def)

lemma step_firstS3SlowDownIteration:
  "firstS3SlowDownIteration (snd (default_iteration i r s)) =
     (if isSlowDown r then latch (firstS3SlowDownIteration s) i
      else firstS3SlowDownIteration s)"
  by (simp add: default_iteration_def track_defs Let_def)

lemma step_totalRequests:
  "totalRequests (snd (default_iteration i r s)) = totalRequests s + 1"
  by (simp add: default_iteration_def track_defs Let_def)

lemma step_timeoutErrors:
  "timeoutErrors (snd (default_iteration i r s)) =
     timeoutErrors s + (if isTimeout r then 1 else 0)"
  by (simp add: default_iteration_def track_defs Let_def)

lemma step_totalErrors:
  "totalErrors (snd (default_iteration i r s)) =
     totalErrors s + (if isTimeout r then 1 else 0) + (if isGenericError r then 1 else 0)"
  by (simp add: default_iteration_def track_defs isGenericError_def Let_def)

lemma step_s3Errors:
  "s3Errors (snd (default_iteration i r s)) =
     s3Errors s + (if isSlowDown r \<or> isS3Marker r then 1 else 0)"
  by (simp add: default_iteration_def track_defs Let_def)

lemma step_s3SlowDownErrors:
  "s3SlowDownErrors (snd (default_iteration i r s)) =
     s3SlowDownErrors s + (if isSlowDown r then 1 else 0)"
  by (simp add: default_iteration_def track_defs Let_def)

lemma step_greendotUpdates:
  "greendotUpdates (snd (default_iteration i r s)) =
     greendotUpdates s + (if isSuccess r then 1 else 0)"
  by (simp add: default_iteration_def track_defs isSuccess_def Let_def)

subsection \<open>Breaking-point variables over a run\<close>

lemma run_keeps_firstTimeoutIteration:
  "firstTimeoutIteration s = Some v \<Longrightarrow> firstTimeoutIteration (run xs s) = Some v"
  by (induction xs s rule: run.induct) (simp_all add: step_firstTimeoutIteration latch_def)

lemma run_keeps_firstErrorIteration:
  "firstErrorIteration s = Some v \<Longrightarrow> firstErrorIteration (run xs s) = Some v"
  by (induction xs s rule: run.induct) (simp_all add: step_firstErrorIteration latch_def)

lemma run_keeps_firstS3SlowDownIteration:
  "firstS3SlowDownIteration s = Some v \<Longrightarrow> firstS3SlowDownIteration (run xs s) = Some v"
  by (induction xs s rule: run.induct) (simp_all add: step_firstS3SlowDownIteration latch_def)

text \<open>
  C1. A breaking-point variable that is unset when an occurrence of its condition arrives
  at iteration \<open>i\<close> holds \<open>i\<close> after that iteration and after every sequence of later
  iterations, whatever they are (so also after any number of further occurrences); a
  variable that is set keeps its value over every run. This holds for the timeout, the
  generic-error and the SlowDown variable alike.
\<close>

theorem breakpoint_latch_write_once:
  "(firstTimeoutIteration s = None \<and> isTimeout r \<longrightarrow>
      firstTimeoutIteration (run ((i, r) # later) s) = Some i) \<and>
   (firstErrorIteration s = None \<and> isGenericError r \<longrightarrow>
      firstErrorIteration (run ((i, r) # later) s) = Some i) \<and>
   (firstS3SlowDownIteration s = None \<and> isSlowDown r \<longrightarrow>
      firstS3SlowDownIteration (run ((i, r) # later) s) = Some i) \<and>
   (firstTimeoutIteration s = Some v \<longrightarrow> firstTimeoutIteration (run later s) = Some v) \<and>
   (firstErrorIteration s = Some v \<longrightarrow> firstErrorIteration (run later s) = Some v) \<and>
   (firstS3SlowDownIteration s = Some v \<longrightarrow>
      firstS3SlowDownIteration (run later s) = Some v)"
proof -
  have t: "firstTimeoutIteration (run ((i, r) # later) s) = Some i"
    if "firstTimeoutIteration s = None" "isTimeout r"
    using that
    by (simp add: run_keeps_firstTimeoutIteration step_firstTimeoutIteration latch_def)
  have e: "firstErrorIteration (run ((i, r) # later) s) = Some i"
    if "firstErrorIteration s = None" "isGenericError r"
    using that
    by (simp add: run_keeps_firstErrorIteration step_firstErrorIteration latch_def)
  have d: "firstS3SlowDownIteration (run ((i, r) # later) s) = Some i"
    if "firstS3SlowDownIteration s = None" "isSlowDown r"
    using that
    by (simp add: run_keeps_firstS3SlowDownIteration step_firstS3SlowDownIteration latch_def)
  show ?thesis
    using t e d run_keeps_firstTimeoutIteration run_keeps_firstErrorIteration
      run_keeps_firstS3SlowDownIteration by blast
qed


theorem breakpoint_latch_write_once_witness:
  "firstTimeoutIteration
     (run [(4, \<lparr>status = 0, error_code = 1050, body = Some ''SlowDown''\<rparr>),
           (7, \<lparr>status = 0, error_code = 1050, body = Some ''SlowDown''\<rparr>),
           (9, \<lparr>status = 0, error_code = 1050, body = Some ''SlowDown''\<rparr>)]
        initial_state) = Some 4 \<and>
   firstS3SlowDownIteration
     (run [(4, \<lparr>status = 0, error_code = 1050, body = Some ''SlowDown''\<rparr>),
           (7, \<lparr>status = 0, error_code = 1050, body = Some ''SlowDown''\<rparr>),
           (9, \<lparr>status = 0, error_code = 1050, body = Some ''SlowDown''\<rparr>)]
        initial_state) = Some 4 \<and>
   firstErrorIteration
     (run [(4, \<lparr>status = 500, error_code = 0, body = Some ''oops''\<rparr>),
           (7, \<lparr>status = 500, error_code = 0, body = Some ''oops''\<rparr>)]
        initial_state) = Some 4 \<and>
   firstTimeoutIteration
     (run [(7, \<lparr>status = 0, error_code = 1050, body = Some ''SlowDown''\<rparr>)]
        (initial_state\<lparr>firstTimeoutIteration := Some 4\<rparr>)) = Some 4"
  using breakpoint_latch_write_once
    [of initial_state "\<lparr>status = 0, error_code = 1050, body = Some ''SlowDown''\<rparr>" 4
      "[(7, \<lparr>status = 0, error_code = 1050, body = Some ''SlowDown''\<rparr>),
        (9, \<lparr>status = 0, error_code = 1050, body = Some ''SlowDown''\<rparr>)]"]
    breakpoint_latch_write_once
    [of initial_state "\<lparr>status = 500, error_code = 0, body = Some ''oops''\<rparr>" 4
      "[(7, \<lparr>status = 500, error_code = 0, body = Some ''oops''\<rparr>)]"]
    breakpoint_latch_write_once
    [where s = "initial_state\<lparr>firstTimeoutIteration := Some 4\<rparr>" and v = 4
      and later = "[(7, \<lparr>status = 0, error_code = 1050, body = Some ''SlowDown''\<rparr>)]"]
  by (simp add: initial_state_def isTimeout_def isSuccess_def isGenericError_def isSlowDown_def
      str_includes_def)

subsection \<open>Counters over a run\<close>

lemma run_totalRequests: "totalRequests (run xs s) = totalRequests s + length xs"
  by (induction xs s rule: run.induct) (simp_all add: step_totalRequests)

lemma run_timeoutErrors:
  "timeoutErrors (run xs s) = timeoutErrors s + length (filter (\<lambda>(i, r). isTimeout r) xs)"
  by (induction xs s rule: run.induct) (simp_all add: step_timeoutErrors)

lemma run_totalErrors:
  "totalErrors (run xs s) =
     totalErrors s + length (filter (\<lambda>(i, r). isTimeout r) xs)
       + length (filter (\<lambda>(i, r). isGenericError r) xs)"
  by (induction xs s rule: run.induct) (simp_all add: step_totalErrors)

lemma timeout_generic_le_length:
  "length (filter (\<lambda>(i, r). isTimeout r) xs)
     + length (filter (\<lambda>(i, r). isGenericError r) xs) \<le> length xs"
  by (induction xs) (auto simp: isGenericError_def)

text \<open>
  C8. After any sequence of iterations from the initial state, \<open>total_errors\<close> is
  \<open>timeout_errors\<close> plus the number of responses that were neither a success nor a
  timeout; one iteration adds at most 1 to \<open>total_errors\<close>; and
  \<open>timeout_errors \<le> total_errors \<le> total_requests\<close>.
\<close>

theorem total_errors_accounting:
  "totalErrors (run xs initial_state) =
     timeoutErrors (run xs initial_state)
       + length (filter (\<lambda>(i, r). isGenericError r) xs) \<and>
   totalErrors (snd (default_iteration i r s)) \<le> totalErrors s + 1 \<and>
   timeoutErrors (run xs initial_state) \<le> totalErrors (run xs initial_state) \<and>
   totalErrors (run xs initial_state) \<le> totalRequests (run xs initial_state)"
proof -
  have z: "totalErrors initial_state = 0" "timeoutErrors initial_state = 0"
    "totalRequests initial_state = 0"
    by (simp_all add: initial_state_def)
  have one: "totalErrors (snd (default_iteration i r s)) \<le> totalErrors s + 1"
    by (simp add: step_totalErrors isGenericError_def)
  show ?thesis
    using one timeout_generic_le_length [of xs]
    by (simp add: run_totalErrors run_timeoutErrors run_totalRequests z)
qed

theorem total_errors_accounting_witness:
  "totalErrors
     (run [(0, \<lparr>status = 200, error_code = 0, body = Some ''ok''\<rparr>),
           (1, \<lparr>status = 0, error_code = 1050, body = None\<rparr>),
           (2, \<lparr>status = 500, error_code = 0, body = Some ''no''\<rparr>)] initial_state) =
   timeoutErrors
     (run [(0, \<lparr>status = 200, error_code = 0, body = Some ''ok''\<rparr>),
           (1, \<lparr>status = 0, error_code = 1050, body = None\<rparr>),
           (2, \<lparr>status = 500, error_code = 0, body = Some ''no''\<rparr>)] initial_state) + 1 \<and>
   totalErrors
     (run [(0, \<lparr>status = 200, error_code = 0, body = Some ''ok''\<rparr>),
           (1, \<lparr>status = 0, error_code = 1050, body = None\<rparr>),
           (2, \<lparr>status = 500, error_code = 0, body = Some ''no''\<rparr>)] initial_state) \<le>
   totalRequests
     (run [(0, \<lparr>status = 200, error_code = 0, body = Some ''ok''\<rparr>),
           (1, \<lparr>status = 0, error_code = 1050, body = None\<rparr>),
           (2, \<lparr>status = 500, error_code = 0, body = Some ''no''\<rparr>)] initial_state)"
  using total_errors_accounting
    [of "[(0, \<lparr>status = 200, error_code = 0, body = Some ''ok''\<rparr>),
          (1, \<lparr>status = 0, error_code = 1050, body = None\<rparr>),
          (2, \<lparr>status = 500, error_code = 0, body = Some ''no''\<rparr>)]"]
  by (simp add: step_totalErrors step_timeoutErrors step_totalRequests initial_state_def
      isGenericError_def isSuccess_def isTimeout_def)

subsection \<open>Classification of one response\<close>

text \<open>
  C3, as stated, fails: a response with status 200 and error code 1050 is a success and a
  timeout at once, so it is not the case that exactly one of the three categories holds.
\<close>

theorem classification_not_exclusive:
  "\<not> ((isSuccess \<lparr>status = 200, error_code = 1050, body = None\<rparr> \<and>
        \<not> isTimeout \<lparr>status = 200, error_code = 1050, body = None\<rparr> \<and>
        \<not> isGenericError \<lparr>status = 200, error_code = 1050, body = None\<rparr>) \<or>
       (\<not> isSuccess \<lparr>status = 200, error_code = 1050, body = None\<rparr> \<and>
        isTimeout \<lparr>status = 200, error_code = 1050, body = None\<rparr> \<and>
        \<not> isGenericError \<lparr>status = 200, error_code = 1050, body = None\<rparr>) \<or>
       (\<not> isSuccess \<lparr>status = 200, error_code = 1050, body = None\<rparr> \<and>
        \<not> isTimeout \<lparr>status = 200, error_code = 1050, body = None\<rparr> \<and>
        isGenericError \<lparr>status = 200, error_code = 1050, body = None\<rparr>))"
  by (simp add: isSuccess_def isTimeout_def isGenericError_def)

text \<open>
  C3, amended. Every response is a success, a timeout or a generic error; a generic error
  is neither of the other two; success and timeout hold together exactly for status 200 or
  201 with error code 1050. One iteration adds exactly 1 to \<open>total_requests\<close> and at
  most 1 to each of the other counters, whatever the SlowDown and storage markers in the
  body are.
\<close>

theorem classification_covers:
  "(isSuccess r \<or> isTimeout r \<or> isGenericError r) \<and>
   \<not> (isGenericError r \<and> isSuccess r) \<and>
   \<not> (isGenericError r \<and> isTimeout r) \<and>
   ((isSuccess r \<and> isTimeout r) =
      ((status r = 200 \<or> status r = 201) \<and> error_code r = 1050)) \<and>
   totalRequests (snd (default_iteration i r s)) = totalRequests s + 1 \<and>
   totalErrors (snd (default_iteration i r s)) \<le> totalErrors s + 1 \<and>
   timeoutErrors (snd (default_iteration i r s)) \<le> timeoutErrors s + 1 \<and>
   s3Errors (snd (default_iteration i r s)) \<le> s3Errors s + 1 \<and>
   s3SlowDownErrors (snd (default_iteration i r s)) \<le> s3SlowDownErrors s + 1 \<and>
   greendotUpdates (snd (default_iteration i r s)) \<le> greendotUpdates s + 1"
  by (auto simp: step_totalRequests step_totalErrors step_timeoutErrors step_s3Errors
      step_s3SlowDownErrors step_greendotUpdates isGenericError_def isSuccess_def
      isTimeout_def)

theorem classification_covers_witness:
  "isSuccess \<lparr>status = 200, error_code = 1050, body = Some ''SlowDown S3''\<rparr> \<and>
   isTimeout \<lparr>status = 200, error_code = 1050, body = Some ''SlowDown S3''\<rparr> \<and>
   \<not> isGenericError \<lparr>status = 200, error_code = 1050, body = Some ''SlowDown S3''\<rparr> \<and>
   totalErrors (snd (default_iteration 3
      \<lparr>status = 200, error_code = 1050, body = Some ''SlowDown S3''\<rparr> initial_state)) \<le> 1 \<and>
   s3Errors (snd (default_iteration 3
      \<lparr>status = 200, error_code = 1050, body = Some ''SlowDown S3''\<rparr> initial_state)) \<le> 1"
  using classification_covers
    [of "\<lparr>status = 200, error_code = 1050, body = Some ''SlowDown S3''\<rparr>" 3 initial_state]
  by (simp add: initial_state_def isSuccess_def isTimeout_def isGenericError_def)

subsection \<open>The rates of the report\<close>

text \<open>
  C4, as stated, fails: with one error in two requests both scripts report the rate 50,
  which is neither the quotient 1/2 nor a value in [0,1].
\<close>

theorem rate_is_not_a_fraction:
  "error_rate (handleSummary_chat initial_state
      \<lparr>total_requests = Some 2, total_errors = Some 1, timeout_errors = Some 1,
       s3_slowdown_errors = None, s3_errors_total = None\<rparr>) = Num 50 \<and>
   error_rate (handleSummary_single initial_state
      \<lparr>total_requests = Some 2, total_errors = Some 1, timeout_errors = Some 1,
       s3_slowdown_errors = None, s3_errors_total = None\<rparr>) = Num 50 \<and>
   timeout_rate (handleSummary_chat initial_state
      \<lparr>total_requests = Some 2, total_errors = Some 1, timeout_errors = Some 1,
       s3_slowdown_errors = None, s3_errors_total = None\<rparr>) = Num 50 \<and>
   Num 50 \<noteq> Num (1 / 2) \<and> \<not> (50 :: rat) \<le> 1"
  by (simp add: handleSummary_chat_def handleSummary_single_def)

text \<open>
  C4, amended. The report's rates are percentages. When the error and timeout counts do
  not exceed the request count (a missing counter counting as 0), both scripts report
  \<open>100 * total_errors / total_requests\<close> and \<open>100 * timeout_errors / total_requests\<close>,
  each in [0,100], and exactly 0 when \<open>total_requests\<close> is 0.
\<close>

theorem rates_are_percentages:
  fixes d :: summary_data and s :: driver_state
  defines "reqs \<equiv> count_or0 (total_requests d)"
    and "errs \<equiv> count_or0 (total_errors d)"
    and "touts \<equiv> count_or0 (timeout_errors d)"
  defines "E \<equiv> (if reqs = 0 then 0 else 100 * of_nat errs / of_nat reqs :: rat)"
    and "T \<equiv> (if reqs = 0 then 0 else 100 * of_nat touts / of_nat reqs :: rat)"
  assumes "errs \<le> reqs" and "touts \<le> reqs"
  shows "error_rate (handleSummary_chat s d) = Num E \<and>
         error_rate (handleSummary_single s d) = Num E \<and>
         timeout_rate (handleSummary_chat s d) = Num T \<and>
         timeout_rate (handleSummary_single s d) = Num T \<and>
         0 \<le> E \<and> E \<le> 100 \<and> 0 \<le> T \<and> T \<le> 100 \<and>
         (reqs = 0 \<longrightarrow> E = 0 \<and> T = 0)"
proof -
  have chatE: "error_rate (handleSummary_chat s d) = Num E"
    using assms
    by (cases "total_errors d"; cases "total_requests d")
      (auto simp: handleSummary_chat_def)
  have chatT: "timeout_rate (handleSummary_chat s d) = Num T"
    using assms
    by (cases "timeout_errors d"; cases "total_requests d")
      (auto simp: handleSummary_chat_def)
  have singleE: "error_rate (handleSummary_single s d) = Num E"
    using assms by (simp add: handleSummary_single_def Let_def)
  have singleT: "timeout_rate (handleSummary_single s d) = Num T"
    using assms by (simp add: handleSummary_single_def Let_def)
  have boundE: "0 \<le> E \<and> E \<le> 100"
    using assms by (simp add: divide_le_eq)
  have boundT: "0 \<le> T \<and> T \<le> 100"
    using assms by (simp add: divide_le_eq)
  have zero: "reqs = 0 \<longrightarrow> E = 0 \<and> T = 0"
    using assms by simp
  show ?thesis
    using chatE chatT singleE singleT boundE boundT zero by blast
qed

theorem rates_are_percentages_witness:
  "error_rate (handleSummary_chat initial_state
      \<lparr>total_requests = Some 8, total_errors = Some 2, timeout_errors = Some 1,
       s3_slowdown_errors = None, s3_errors_total = None\<rparr>) = Num 25 \<and>
   timeout_rate (handleSummary_single initial_state
      \<lparr>total_requests = Some 8, total_errors = Some 2, timeout_errors = Some 1,
       s3_slowdown_errors = None, s3_errors_total = None\<rparr>) = Num (25 / 2) \<and>
   error_rate (handleSummary_chat initial_state
      \<lparr>total_requests = None, total_errors = None, timeout_errors = None,
       s3_slowdown_errors = None, s3_errors_total = None\<rparr>) = Num 0"
  using rates_are_percentages
    [of "\<lparr>total_requests = Some 8, total_errors = Some 2, timeout_errors = Some 1,
          s3_slowdown_errors = None, s3_errors_total = None\<rparr>" initial_state]
    rates_are_percentages
    [of "\<lparr>total_requests = None, total_errors = None, timeout_errors = None,
          s3_slowdown_errors = None, s3_errors_total = None\<rparr>" initial_state]
  by simp


section \<open>Properties of the metrics collector\<close>

subsection \<open>The blocks of the analysis append the closed-form entries\<close>

lemma push_simps [simp]:
  "issues (push_issue f a) = issues a @ [f]" "warns (push_issue f a) = warns a"
  "summ (push_issue f a) = summ a"
  "issues (push_warning f a) = issues a" "warns (push_warning f a) = warns a @ [f]"
  "summ (push_warning f a) = summ a"
  by (simp_all add: push_issue_def push_warning_def)

lemma check_cluster_status_eq:
  "issues (check_cluster_status h a) = issues a @ cluster_issues h"
  "warns (check_cluster_status h a) = warns a @ cluster_warnings h"
  "summ (check_cluster_status h a) = summ a"
  by (simp_all add: check_cluster_status_def cluster_issues_def cluster_warnings_def)

lemma check_pool_eq:
  "issues (check_pool p a) = issues a @ pool_issues p"
  "warns (check_pool p a) = warns a @ pool_warnings p"
  "summ (check_pool p a) = summ a"
  by (simp_all add: check_pool_def pool_issues_def pool_warnings_def Let_def
      split: option.splits)

lemma fold_check_pool_eq:
  "issues (fold check_pool tp a) = issues a @ concat (map pool_issues tp)"
  "warns (fold check_pool tp a) = warns a @ concat (map pool_warnings tp)"
  "summ (fold check_pool tp a) = summ a"
  by (induction tp arbitrary: a) (simp_all add: check_pool_eq)

lemma check_node_eq:
  "issues (check_node n a) = issues a @ node_issues n"
  "warns (check_node n a) = warns a @ node_warnings n"
  "summ (check_node n a) = summ a"
  by (simp_all add: check_node_def node_issues_def node_warnings_def Let_def)

lemma fold_check_node_eq:
  "issues (fold check_node ns a) = issues a @ concat (map node_issues ns)"
  "warns (fold check_node ns a) = warns a @ concat (map node_warnings ns)"
  "summ (fold check_node ns a) = summ a"
  by (induction ns arbitrary: a) (simp_all add: check_node_eq)

lemma check_refresh_eq:
  "issues (check_refresh ist a) = issues a @ refresh_issues ist"
  "warns (check_refresh ist a) = warns a @ refresh_warnings ist"
  "summ (check_refresh ist a) = summ a"
  by (simp_all add: check_refresh_def refresh_issues_def refresh_warnings_def avg_refresh_def
      Let_def split: option.splits)

lemma check_pending_eq:
  "issues (check_pending pt a) = issues a"
  "warns (check_pending pt a) = warns a @ pending_warnings pt"
  "summ (check_pending pt a) = summ a"
  by (simp_all add: check_pending_def pending_warnings_def)

lemma check_active_eq:
  "issues (check_active act a) = issues a @ active_issues act"
  "warns (check_active act a) = warns a @ active_warnings act"
  by (simp_all add: check_active_def active_issues_def active_warnings_def Let_def
      split: option.splits)

lemma check_breakers_eq:
  "issues (check_breakers cb a) = issues a @ breaker_issues cb"
  "warns (check_breakers cb a) = warns a"
  by (simp_all add: check_breakers_def breaker_issues_def split: option.splits)

lemma check_queue_eq:
  "issues (check_queue qm a) = issues a @ queue_issues qm"
  "warns (check_queue qm a) = warns a @ queue_warnings qm"
  by (simp_all add: check_queue_def queue_issues_def queue_warnings_def max_saturation_def
      split: option.splits)

lemma check_segments_eq:
  "issues (check_segments sg sgu a) = issues a"
  "warns (check_segments sg sgu a) = warns a @ segment_warnings sg sgu"
  "summ (check_segments sg sgu a) = summ a"
  by (simp_all add: check_segments_def segment_warnings_def Let_def split: option.splits)

lemma check_cache_eq:
  "issues (check_cache cm a) = issues a"
  "warns (check_cache cm a) = warns a @ cache_warnings cm"
  "summ (check_cache cm a) = summ a"
  by (simp_all add: check_cache_def cache_warnings_def Let_def split: option.splits)

lemmas check_eqs = check_cluster_status_eq fold_check_pool_eq fold_check_node_eq
  check_refresh_eq check_pending_eq check_active_eq check_breakers_eq check_queue_eq
  check_segments_eq check_cache_eq

lemma issues_analyze: "issues (analyze m h tp ns pt) = all_issues m h tp ns"
  by (simp add: analyze_def all_issues_def check_eqs)

lemma warns_analyze: "warns (analyze m h tp ns pt) = all_warnings m h tp ns pt"
  by (simp add: analyze_def all_warnings_def check_eqs)

subsection \<open>What the analysis writes to the summary\<close>

lemma summ_check_active:
  "summ (check_active act a) =
     (case act of None \<Rightarrow> summ a
      | Some t \<Rightarrow> (summ a)\<lparr>active_searches := searchTasks t,
                             long_running_queries_5s := longRunning5s t,
                             long_running_queries_10s := longRunning10s t,
                             long_running_queries_30s := longRunning30s t\<rparr>)"
  by (simp add: check_active_def Let_def split: option.splits)

lemma summ_check_breakers:
  "summ (check_breakers cb a) =
     (case cb of None \<Rightarrow> summ a
      | Some c \<Rightarrow> if totalTrips c > 0 then (summ a)\<lparr>circuit_breaker_trips := totalTrips c\<rparr>
                  else summ a)"
  by (simp add: check_breakers_def split: option.splits)

lemma summ_check_queue:
  "summ (check_queue qm a) =
     (case max_saturation qm of None \<Rightarrow> summ a
      | Some m \<Rightarrow> if m > 50 then (summ a)\<lparr>search_queue_saturation_pct := m\<rparr> else summ a)"
  by (simp add: check_queue_def max_saturation_def split: option.splits)

lemma summ_analyze:
  "summ (analyze m h tp ns pt) =
     summ (check_queue (queueMetrics m) (check_breakers (circuitBreakerStatus m)
       (check_active (activeTasks m) \<lparr>issues = [], warns = [], summ = summary m\<rparr>)))"
  by (simp add: analyze_def check_eqs summ_check_queue summ_check_breakers summ_check_active
      split: option.splits)

lemma analyzeCriticalIssues_ok:
  assumes "clusterHealth m = Some h" "threadPoolStats m = Some tp" "nodeStats m = Some ns"
    "pendingTasks m = Some pt"
  shows "\<exists>m'. analyzeCriticalIssues m = Inr m' \<and>
       critical_issues (summary m') = all_issues m h tp ns \<and>
       warnings (summary m') = all_warnings m h tp ns pt \<and>
       health_status (summary m') = cluster_status h \<and>
       active_searches (summary m') = active_searches (summ (analyze m h tp ns pt)) \<and>
       long_running_queries_5s (summary m') =
         long_running_queries_5s (summ (analyze m h tp ns pt)) \<and>
       long_running_queries_10s (summary m') =
         long_running_queries_10s (summ (analyze m h tp ns pt)) \<and>
       long_running_queries_30s (summary m') =
         long_running_queries_30s (summ (analyze m h tp ns pt)) \<and>
       circuit_breaker_trips (summary m') =
         circuit_breaker_trips (summ (analyze m h tp ns pt)) \<and>
       search_queue_saturation_pct (summary m') =
         search_queue_saturation_pct (summ (analyze m h tp ns pt)) \<and>
       m' = m\<lparr>summary := summary m'\<rparr>"
  using assms
  by (simp add: analyzeCriticalIssues_def Let_def issues_analyze warns_analyze)

subsection \<open>Console annotations of \<open>checkNodeStats\<close>\<close>

text \<open>
  C9. The heap annotation is never the CRITICAL marker: the comparison with 75 comes
  first, so every percentage above 85 is annotated HIGH. The CPU annotation behaves the
  same way with 80 and 90. Hence no node's printed annotations contain CRITICAL.
\<close>

theorem console_annotation_never_critical:
  "heapWarning heapUsedPercent \<noteq> CRITICAL \<and>
   (heapUsedPercent > 85 \<longrightarrow> heapWarning heapUsedPercent = HIGH) \<and>
   cpuWarning cpuPercent \<noteq> CRITICAL \<and>
   (cpuPercent > 90 \<longrightarrow> cpuWarning cpuPercent = HIGH) \<and>
   (\<forall>a \<in> set (node_annotations nodes). fst a \<noteq> CRITICAL \<and> snd a \<noteq> CRITICAL)"
  by (auto simp: heapWarning_def cpuWarning_def node_annotations_def)

theorem console_annotation_never_critical_witness:
  "heapWarning 95 = HIGH \<and> cpuWarning 97 = HIGH \<and>
   node_annotations
     [\<lparr>node_name = ''node-1'', heap_used_percent = 95, old_collection_count = 0,
       cpu_percent = 97, thread_pool_rejected = []\<rparr>] = [(HIGH, HIGH)]"
  using console_annotation_never_critical
    [of 95 97 "[\<lparr>node_name = ''node-1'', heap_used_percent = 95, old_collection_count = 0,
       cpu_percent = 97, thread_pool_rejected = []\<rparr>]"]
  by (simp add: heapWarning_def cpuWarning_def node_annotations_def)

subsection \<open>The node columns of the summary row\<close>

text \<open>
  C10. When the node list of the snapshot is not empty, columns 7 and 8 of the row
  (\<open>jvm_memory_percent\<close>, \<open>cpu_percent\<close>) hold the heap and CPU percentages of its
  first node, whatever the other nodes report, and that row is the line appended to the
  summary file.
\<close>

theorem csv_row_reads_first_node:
  assumes "nodeStats m = Some (n # others)"
  shows "headers ! 7 = ''jvm_memory_percent'' \<and> headers ! 8 = ''cpu_percent'' \<and>
         length (csv_row m) = length headers \<and>
         csv_row m ! 7 = CellNum (heap_used_percent n) \<and>
         csv_row m ! 8 = CellNum (cpu_percent n) \<and>
         last (saveSummaryCSV m csvFile) = csv_row m"
  using assms
  by (simp add: headers_def csv_row_def firstNode_def saveSummaryCSV_def)

theorem csv_row_reads_first_node_witness:
  "csv_row ((initial_metrics ''t'')\<lparr>nodeStats := Some
      [\<lparr>node_name = ''node-1'', heap_used_percent = 40, old_collection_count = 0,
        cpu_percent = 10, thread_pool_rejected = []\<rparr>,
       \<lparr>node_name = ''node-2'', heap_used_percent = 95, old_collection_count = 0,
        cpu_percent = 99, thread_pool_rejected = []\<rparr>]\<rparr>) ! 7 = CellNum 40 \<and>
   csv_row ((initial_metrics ''t'')\<lparr>nodeStats := Some
      [\<lparr>node_name = ''node-1'', heap_used_percent = 40, old_collection_count = 0,
        cpu_percent = 10, thread_pool_rejected = []\<rparr>,
       \<lparr>node_name = ''node-2'', heap_used_percent = 95, old_collection_count = 0,
        cpu_percent = 99, thread_pool_rejected = []\<rparr>]\<rparr>) ! 8 = CellNum 10"
  using csv_row_reads_first_node
    [of "(initial_metrics ''t'')\<lparr>nodeStats := Some
      [\<lparr>node_name = ''node-1'', heap_used_percent = 40, old_collection_count = 0,
        cpu_percent = 10, thread_pool_rejected = []\<rparr>,
       \<lparr>node_name = ''node-2'', heap_used_percent = 95, old_collection_count = 0,
        cpu_percent = 99, thread_pool_rejected = []\<rparr>]\<rparr>"
      "\<lparr>node_name = ''node-1'', heap_used_percent = 40, old_collection_count = 0,
        cpu_percent = 10, thread_pool_rejected = []\<rparr>"
      "[\<lparr>node_name = ''node-2'', heap_used_percent = 95, old_collection_count = 0,
        cpu_percent = 99, thread_pool_rejected = []\<rparr>]"]
  by simp

subsection \<open>The numeric fields of the summary\<close>

text \<open>
  C5, as stated, fails: with the search queue at 30 percent the snapshot's
  \<open>maxSaturation\<close> is 30 but the summary's \<open>search_queue_saturation_pct\<close> stays 0.
\<close>

theorem saturation_below_50_not_extracted:
  "map_option (search_queue_saturation_pct \<circ> summary)
     (snapshot_of (runFullCheck False
        (healthy_api
           \<lparr>cat_threadPool :=
              Inr [\<lparr>pool_node_name = ''node-1'', pool_name = ''search'', pool_active = ''1'',
                 pool_queue = ''300'', pool_rejected = ''0'', pool_queue_size = ''1000''\<rparr>],
            cat_threadPool_queue :=
              Inr [\<lparr>pool_node_name = ''node-1'', pool_name = ''search'', pool_active = ''1'',
                 pool_queue = ''300'', pool_rejected = ''0'', pool_queue_size = ''1000''\<rparr>]\<rparr>)
        no_files)) = Some 0 \<and>
   Option.bind (Option.bind
     (snapshot_of (runFullCheck False
        (healthy_api
           \<lparr>cat_threadPool :=
              Inr [\<lparr>pool_node_name = ''node-1'', pool_name = ''search'', pool_active = ''1'',
                 pool_queue = ''300'', pool_rejected = ''0'', pool_queue_size = ''1000''\<rparr>],
            cat_threadPool_queue :=
              Inr [\<lparr>pool_node_name = ''node-1'', pool_name = ''search'', pool_active = ''1'',
                 pool_queue = ''300'', pool_rejected = ''0'', pool_queue_size = ''1000''\<rparr>]\<rparr>)
        no_files)) queueMetrics) maxSaturation = Some 30"
  by code_simp


text \<open>
  C5, amended. On a snapshot whose cluster health, thread pools, node list and pending
  tasks are present the analysis succeeds, and: the active-search count and the three
  long-running counts are copied from the active-tasks group whenever that group is
  present; the breaker trip count is copied only when it is above 0; the queue saturation
  is copied only when it is above 50. A field that is not copied keeps the value the
  incoming summary had (0 in the snapshot that \<open>runFullCheck\<close> creates).
\<close>

theorem summary_extraction:
  assumes "clusterHealth m = Some h" "threadPoolStats m = Some tp" "nodeStats m = Some ns"
    "pendingTasks m = Some pt"
  shows "\<exists>m'. analyzeCriticalIssues m = Inr m' \<and>
         active_searches (summary m') =
           (case activeTasks m of None \<Rightarrow> active_searches (summary m)
            | Some t \<Rightarrow> searchTasks t) \<and>
         long_running_queries_5s (summary m') =
           (case activeTasks m of None \<Rightarrow> long_running_queries_5s (summary m)
            | Some t \<Rightarrow> longRunning5s t) \<and>
         long_running_queries_10s (summary m') =
           (case activeTasks m of None \<Rightarrow> long_running_queries_10s (summary m)
            | Some t \<Rightarrow> longRunning10s t) \<and>
         long_running_queries_30s (summary m') =
           (case activeTasks m of None \<Rightarrow> long_running_queries_30s (summary m)
            | Some t \<Rightarrow> longRunning30s t) \<and>
         circuit_breaker_trips (summary m') =
           (case circuitBreakerStatus m of None \<Rightarrow> circuit_breaker_trips (summary m)
            | Some c \<Rightarrow> if totalTrips c > 0 then totalTrips c
                        else circuit_breaker_trips (summary m)) \<and>
         search_queue_saturation_pct (summary m') =
           (case max_saturation (queueMetrics m) of
              None \<Rightarrow> search_queue_saturation_pct (summary m)
            | Some x \<Rightarrow> if x > 50 then x else search_queue_saturation_pct (summary m))"
proof -
  from analyzeCriticalIssues_ok [OF assms] obtain m' where
    ok: "analyzeCriticalIssues m = Inr m'" and
    f: "active_searches (summary m') = active_searches (summ (analyze m h tp ns pt))"
      "long_running_queries_5s (summary m') =
         long_running_queries_5s (summ (analyze m h tp ns pt))"
      "long_running_queries_10s (summary m') =
         long_running_queries_10s (summ (analyze m h tp ns pt))"
      "long_running_queries_30s (summary m') =
         long_running_queries_30s (summ (analyze m h tp ns pt))"
      "circuit_breaker_trips (summary m') =
         circuit_breaker_trips (summ (analyze m h tp ns pt))"
      "search_queue_saturation_pct (summary m') =
         search_queue_saturation_pct (summ (analyze m h tp ns pt))"
    by blast
  have "active_searches (summary m') =
           (case activeTasks m of None \<Rightarrow> active_searches (summary m)
            | Some t \<Rightarrow> searchTasks t)"
    unfolding f summ_analyze summ_check_queue summ_check_breakers summ_check_active
    by (simp split: option.splits)
  moreover have "long_running_queries_5s (summary m') =
           (case activeTasks m of None \<Rightarrow> long_running_queries_5s (summary m)
            | Some t \<Rightarrow> longRunning5s t)"
    unfolding f summ_analyze summ_check_queue summ_check_breakers summ_check_active
    by (simp split: option.splits)
  moreover have "long_running_queries_10s (summary m') =
           (case activeTasks m of None \<Rightarrow> long_running_queries_10s (summary m)
            | Some t \<Rightarrow> longRunning10s t)"
    unfolding f summ_analyze summ_check_queue summ_check_breakers summ_check_active
    by (simp split: option.splits)
  moreover have "long_running_queries_30s (summary m') =
           (case activeTasks m of None \<Rightarrow> long_running_queries_30s (summary m)
            | Some t \<Rightarrow> longRunning30s t)"
    unfolding f summ_analyze summ_check_queue summ_check_breakers summ_check_active
    by (simp split: option.splits)
  moreover have "circuit_breaker_trips (summary m') =
           (case circuitBreakerStatus m of None \<Rightarrow> circuit_breaker_trips (summary m)
            | Some c \<Rightarrow> if totalTrips c > 0 then totalTrips c
                        else circuit_breaker_trips (summary m))"
    unfolding f summ_analyze summ_check_queue summ_check_breakers summ_check_active
    by (simp split: option.splits)
  moreover have "search_queue_saturation_pct (summary m') =
           (case max_saturation (queueMetrics m) of
              None \<Rightarrow> search_queue_saturation_pct (summary m)
            | Some x \<Rightarrow> if x > 50 then x else search_queue_saturation_pct (summary m))"
    unfolding f summ_analyze summ_check_queue summ_check_breakers summ_check_active
    by (simp split: option.splits)
  ultimately show ?thesis using ok by blast
qed

theorem summary_extraction_witness:
  "\<exists>m'. analyzeCriticalIssues
          ((initial_metrics ''t'')
             \<lparr>clusterHealth := Some \<lparr>cluster_status = ''green'', number_of_nodes = 1,
                                      number_of_pending_tasks = 0\<rparr>,
              threadPoolStats := Some [], nodeStats := Some [], pendingTasks := Some [],
              activeTasks := Some \<lparr>tasks_total = 4, searchTasks = 3, longRunning5s = 2,
                                    longRunning10s = 1, longRunning30s = 0, tasks_top = []\<rparr>,
              circuitBreakerStatus := Some \<lparr>breaker_nodes = [], totalTrips = 2\<rparr>,
              queueMetrics := Some \<lparr>maxSaturation = Some 60, poolData = []\<rparr>\<rparr>) = Inr m' \<and>
        active_searches (summary m') = 3 \<and>
        long_running_queries_5s (summary m') = 2 \<and>
        circuit_breaker_trips (summary m') = 2 \<and>
        search_queue_saturation_pct (summary m') = 60"
  using summary_extraction
    [of "(initial_metrics ''t'')
             \<lparr>clusterHealth := Some \<lparr>cluster_status = ''green'', number_of_nodes = 1,
                                      number_of_pending_tasks = 0\<rparr>,
              threadPoolStats := Some [], nodeStats := Some [], pendingTasks := Some [],
              activeTasks := Some \<lparr>tasks_total = 4, searchTasks = 3, longRunning5s = 2,
                                    longRunning10s = 1, longRunning30s = 0, tasks_top = []\<rparr>,
              circuitBreakerStatus := Some \<lparr>breaker_nodes = [], totalTrips = 2\<rparr>,
              queueMetrics := Some \<lparr>maxSaturation = Some 60, poolData = []\<rparr>\<rparr>"
      "\<lparr>cluster_status = ''green'', number_of_nodes = 1, number_of_pending_tasks = 0\<rparr>"
      "[]" "[]" "[]"]
  by (auto simp: initial_metrics_def max_saturation_def)

subsection \<open>Entries of one kind among all entries\<close>

lemma filter_concat_map_empty:
  "(\<And>x. filter P (f x) = []) \<Longrightarrow> filter P (concat (map f xs)) = []"
  by (induction xs) simp_all

lemma cache_filter_other [simp]:
  "filter is_cache_finding (cluster_issues h) = []"
  "filter is_cache_finding (cluster_warnings h) = []"
  "filter is_cache_finding (pool_issues p) = []"
  "filter is_cache_finding (pool_warnings p) = []"
  "filter is_cache_finding (node_issues n) = []"
  "filter is_cache_finding (node_warnings n) = []"
  "filter is_cache_finding (refresh_issues ist) = []"
  "filter is_cache_finding (refresh_warnings ist) = []"
  "filter is_cache_finding (pending_warnings pt) = []"
  "filter is_cache_finding (active_issues act) = []"
  "filter is_cache_finding (active_warnings act) = []"
  "filter is_cache_finding (breaker_issues cb) = []"
  "filter is_cache_finding (queue_issues qm) = []"
  "filter is_cache_finding (queue_warnings qm) = []"
  "filter is_cache_finding (segment_warnings sg sgu) = []"
  "filter is_cache_finding (cache_warnings cm) = cache_warnings cm"
  by (simp_all add: cluster_issues_def cluster_warnings_def pool_issues_def pool_warnings_def
      node_issues_def node_warnings_def refresh_issues_def refresh_warnings_def
      pending_warnings_def active_issues_def active_warnings_def breaker_issues_def
      queue_issues_def queue_warnings_def segment_warnings_def cache_warnings_def
      split: option.splits)

lemma cache_filter_all_issues: "filter is_cache_finding (all_issues m h tp ns) = []"
  by (simp add: all_issues_def filter_concat_map_empty)

lemma cache_filter_all_warnings:
  "filter is_cache_finding (all_warnings m h tp ns pt) = cache_warnings (cacheMetrics m)"
  by (simp add: all_warnings_def filter_concat_map_empty)

lemma queue_filter_other [simp]:
  "filter is_queue_finding (cluster_issues h) = []"
  "filter is_queue_finding (cluster_warnings h) = []"
  "filter is_queue_finding (pool_issues p) = []"
  "filter is_queue_finding (pool_warnings p) = pool_warnings p"
  "filter is_queue_finding (node_issues n) = []"
  "filter is_queue_finding (node_warnings n) = []"
  "filter is_queue_finding (refresh_issues ist) = []"
  "filter is_queue_finding (refresh_warnings ist) = []"
  "filter is_queue_finding (pending_warnings pt) = []"
  "filter is_queue_finding (active_issues act) = []"
  "filter is_queue_finding (active_warnings act) = []"
  "filter is_queue_finding (breaker_issues cb) = []"
  "filter is_queue_finding (queue_issues qm) = queue_issues qm"
  "filter is_queue_finding (queue_warnings qm) = queue_warnings qm"
  "filter is_queue_finding (segment_warnings sg sgu) = []"
  "filter is_queue_finding (cache_warnings cm) = []"
  by (simp_all add: cluster_issues_def cluster_warnings_def pool_issues_def pool_warnings_def
      node_issues_def node_warnings_def refresh_issues_def refresh_warnings_def
      pending_warnings_def active_issues_def active_warnings_def breaker_issues_def
      queue_issues_def queue_warnings_def segment_warnings_def cache_warnings_def
      split: option.splits)

lemma filter_concat_map_id:
  "(\<And>x. filter P (f x) = f x) \<Longrightarrow> filter P (concat (map f xs)) = concat (map f xs)"
  by (induction xs) simp_all

lemma queue_filter_all_issues:
  "filter is_queue_finding (all_issues m h tp ns) = queue_issues (queueMetrics m)"
  by (simp add: all_issues_def filter_concat_map_empty)

lemma queue_filter_all_warnings:
  "filter is_queue_finding (all_warnings m h tp ns pt) =
     concat (map pool_warnings tp) @ queue_warnings (queueMetrics m)"
  by (simp add: all_warnings_def filter_concat_map_empty filter_concat_map_id)

lemma pool_warnings_parsed:
  "parseInt (pool_queue_size p) = Some qs \<Longrightarrow> parseInt (pool_queue p) = Some qd \<Longrightarrow>
   pool_warnings p =
     (if qs > 0 \<and> 10 * qd > 8 * qs
      then [PoolQueueFull (pool_name p) (of_int qd / of_int qs * 100)] else [])"
proof -
  assume a: "parseInt (pool_queue_size p) = Some qs" "parseInt (pool_queue p) = Some qd"
  have "((of_int qd :: rat) > of_int qs * (8 / 10)) = (10 * qd > 8 * qs)"
  proof -
    have "((of_int qd :: rat) > of_int qs * (8 / 10)) = ((of_int (10 * qd) :: rat) > of_int (8 * qs))"
      by (simp add: field_simps)
    also have "\<dots> = (10 * qd > 8 * qs)"
      by (simp only: of_int_less_iff)
    finally show ?thesis .
  qed
  then show ?thesis using a by (simp add: pool_warnings_def)
qed

subsection \<open>Cache evictions\<close>

text \<open>
  C7, as stated, fails: with 6000 query-cache evictions and 600 field-data evictions on
  the only node the snapshot holds those two totals and the analysis pushes no warning at
  all. (The bounds 5000 and 500 are those of a console line of \<open>checkCacheMetrics\<close>,
  which pushes nothing.)
\<close>

theorem evictions_above_5000_no_warning:
  "map_option (warnings \<circ> summary)
     (snapshot_of (runFullCheck False
        (healthy_api\<lparr>nodes_stats_indices :=
           Inr [\<lparr>cache_node_name = ''node-1'', query_cache_evictions = Some 6000,
                 fielddata_evictions = Some 600, request_cache_evictions = Some 0\<rparr>]\<rparr>)
        no_files)) = Some [] \<and>
   map_option queryCacheEvictions (Option.bind
     (snapshot_of (runFullCheck False
        (healthy_api\<lparr>nodes_stats_indices :=
           Inr [\<lparr>cache_node_name = ''node-1'', query_cache_evictions = Some 6000,
                 fielddata_evictions = Some 600, request_cache_evictions = Some 0\<rparr>]\<rparr>)
        no_files)) cacheMetrics) = Some 6000 \<and>
   map_option fieldDataEvictions (Option.bind
     (snapshot_of (runFullCheck False
        (healthy_api\<lparr>nodes_stats_indices :=
           Inr [\<lparr>cache_node_name = ''node-1'', query_cache_evictions = Some 6000,
                 fielddata_evictions = Some 600, request_cache_evictions = Some 0\<rparr>]\<rparr>)
        no_files)) cacheMetrics) = Some 600"
  by code_simp

text \<open>
  C7, amended. On a snapshot whose four unguarded groups are present the analysis
  succeeds; among the warnings the entries about cache evictions are exactly: one
  query-cache entry when the query-cache eviction total is above 10000, followed by one
  field-data entry when the field-data eviction total is above 1000; and no critical
  issue is about cache evictions.
\<close>

theorem cache_eviction_warnings:
  assumes "clusterHealth m = Some h" "threadPoolStats m = Some tp" "nodeStats m = Some ns"
    "pendingTasks m = Some pt"
  shows "\<exists>m'. analyzeCriticalIssues m = Inr m' \<and>
           filter is_cache_finding (critical_issues (summary m')) = [] \<and>
           filter is_cache_finding (warnings (summary m')) =
             (case cacheMetrics m of
                None \<Rightarrow> []
              | Some c \<Rightarrow>
                  (if queryCacheEvictions c > 10000
                   then [QueryCacheEvictions (queryCacheEvictions c)] else []) @
                  (if fieldDataEvictions c > 1000
                   then [FieldDataEvictions (fieldDataEvictions c)] else []))"
proof -
  from analyzeCriticalIssues_ok [OF assms] obtain m' where
    ok: "analyzeCriticalIssues m = Inr m'" and
    i: "critical_issues (summary m') = all_issues m h tp ns" and
    w: "warnings (summary m') = all_warnings m h tp ns pt"
    by blast
  have "filter is_cache_finding (critical_issues (summary m')) = []"
    by (simp add: i cache_filter_all_issues)
  moreover have "filter is_cache_finding (warnings (summary m')) =
      (case cacheMetrics m of
         None \<Rightarrow> []
       | Some c \<Rightarrow>
           (if queryCacheEvictions c > 10000
            then [QueryCacheEvictions (queryCacheEvictions c)] else []) @
           (if fieldDataEvictions c > 1000
            then [FieldDataEvictions (fieldDataEvictions c)] else []))"
    by (simp add: w cache_filter_all_warnings cache_warnings_def)
  ultimately show ?thesis using ok by blast
qed

theorem cache_eviction_warnings_witness:
  "\<exists>m'. analyzeCriticalIssues
          ((initial_metrics ''t'')
             \<lparr>clusterHealth := Some \<lparr>cluster_status = ''green'', number_of_nodes = 1,
                                      number_of_pending_tasks = 0\<rparr>,
              threadPoolStats := Some [], nodeStats := Some [], pendingTasks := Some [],
              cacheMetrics := Some \<lparr>queryCacheEvictions = 10001, fieldDataEvictions = 1000,
                                     cache_nodes = []\<rparr>\<rparr>) = Inr m' \<and>
        filter is_cache_finding (critical_issues (summary m')) = [] \<and>
        filter is_cache_finding (warnings (summary m')) = [QueryCacheEvictions 10001]"
  using cache_eviction_warnings
    [of "(initial_metrics ''t'')
             \<lparr>clusterHealth := Some \<lparr>cluster_status = ''green'', number_of_nodes = 1,
                                      number_of_pending_tasks = 0\<rparr>,
              threadPoolStats := Some [], nodeStats := Some [], pendingTasks := Some [],
              cacheMetrics := Some \<lparr>queryCacheEvictions = 10001, fieldDataEvictions = 1000,
                                     cache_nodes = []\<rparr>\<rparr>"
      "\<lparr>cluster_status = ''green'', number_of_nodes = 1, number_of_pending_tasks = 0\<rparr>"
      "[]" "[]" "[]"]
  by (auto simp: initial_metrics_def)

subsection \<open>Thread-pool queues\<close>

text \<open>
  C6, as stated, fails: a refresh pool with 6 of 10 queue slots taken is kept in the
  snapshot's thread-pool list, and the analysis pushes no warning and no critical issue.
\<close>

theorem refresh_pool_at_60_percent_no_entry:
  "map_option (warnings \<circ> summary)
     (snapshot_of (runFullCheck False
        (healthy_api
           \<lparr>cat_threadPool :=
              Inr [\<lparr>pool_node_name = ''node-1'', pool_name = ''refresh'', pool_active = ''1'',
                    pool_queue = ''6'', pool_rejected = ''0'', pool_queue_size = ''10''\<rparr>],
            cat_threadPool_queue :=
              Inr [\<lparr>pool_node_name = ''node-1'', pool_name = ''refresh'', pool_active = ''1'',
                    pool_queue = ''6'', pool_rejected = ''0'', pool_queue_size = ''10''\<rparr>]\<rparr>)
        no_files)) = Some [] \<and>
   map_option (critical_issues \<circ> summary)
     (snapshot_of (runFullCheck False
        (healthy_api
           \<lparr>cat_threadPool :=
              Inr [\<lparr>pool_node_name = ''node-1'', pool_name = ''refresh'', pool_active = ''1'',
                    pool_queue = ''6'', pool_rejected = ''0'', pool_queue_size = ''10''\<rparr>],
            cat_threadPool_queue :=
              Inr [\<lparr>pool_node_name = ''node-1'', pool_name = ''refresh'', pool_active = ''1'',
                    pool_queue = ''6'', pool_rejected = ''0'', pool_queue_size = ''10''\<rparr>]\<rparr>)
        no_files)) = Some [] \<and>
   Option.bind
     (snapshot_of (runFullCheck False
        (healthy_api
           \<lparr>cat_threadPool :=
              Inr [\<lparr>pool_node_name = ''node-1'', pool_name = ''refresh'', pool_active = ''1'',
                    pool_queue = ''6'', pool_rejected = ''0'', pool_queue_size = ''10''\<rparr>],
            cat_threadPool_queue :=
              Inr [\<lparr>pool_node_name = ''node-1'', pool_name = ''refresh'', pool_active = ''1'',
                    pool_queue = ''6'', pool_rejected = ''0'', pool_queue_size = ''10''\<rparr>]\<rparr>)
        no_files)) threadPoolStats =
     Some [\<lparr>pool_node_name = ''node-1'', pool_name = ''refresh'', pool_active = ''1'',
            pool_queue = ''6'', pool_rejected = ''0'', pool_queue_size = ''10''\<rparr>]"
  by code_simp

subsection \<open>The largest saturation\<close>

lemma fold_js_max_None: "fold (\<lambda>p m. js_max m (f p)) xs None = None"
  by (induction xs) simp_all

lemma fold_js_max_Some:
  "fold (\<lambda>p m. js_max m (f p)) xs (Some a) =
     (if \<forall>p \<in> set xs. f p \<noteq> None
      then Some (Max (insert a ((\<lambda>p. the (f p)) ` set xs))) else None)"
proof (induction xs arbitrary: a)
  case Nil
  then show ?case by simp
next
  case (Cons x xs)
  show ?case
  proof (cases "f x")
    case None
    then show ?thesis by (simp add: fold_js_max_None)
  next
    case (Some b)
    have m: "Max (insert (max a b) ((\<lambda>p. the (f p)) ` set xs)) =
             Max (insert a (insert b ((\<lambda>p. the (f p)) ` set xs)))"
      by (cases "set xs = {}") (simp_all add: max.assoc)
    show ?thesis using Some Cons.IH [of "max a b"] m by simp
  qed
qed

lemma maxSaturation_rows:
  "maxSaturation (checkQueueMetrics (Inr rows)) =
     (if \<forall>p \<in> set (filter (\<lambda>p. pool_name p \<in> {''write'', ''bulk'', ''search'', ''get''}) rows).
           saturation p \<noteq> None
      then Some (Max (insert 0 ((\<lambda>p. the (saturation p)) `
             set (filter (\<lambda>p. pool_name p \<in> {''write'', ''bulk'', ''search'', ''get''}) rows))))
      else None)"
proof -
  define rel where "rel = filter (\<lambda>p. pool_name p \<in> {''write'', ''bulk'', ''search'', ''get''}) rows"
  define grouped where "grouped =
     filter (\<lambda>p. pool_name p = ''write'') rel @ filter (\<lambda>p. pool_name p = ''bulk'') rel @
     filter (\<lambda>p. pool_name p = ''search'') rel @ filter (\<lambda>p. pool_name p = ''get'') rel"
  have s: "set grouped = set rel"
    by (auto simp: grouped_def rel_def)
  have "maxSaturation (checkQueueMetrics (Inr rows)) =
          fold (\<lambda>p m. js_max m (saturation p)) grouped (Some 0)"
    by (simp add: checkQueueMetrics_def Let_def grouped_def rel_def)
  also have "\<dots> = (if \<forall>p \<in> set grouped. saturation p \<noteq> None
      then Some (Max (insert 0 ((\<lambda>p. the (saturation p)) ` set grouped))) else None)"
    by (rule fold_js_max_Some)
  finally show ?thesis unfolding s rel_def .
qed

lemma saturation_parsed:
  "parseInt (pool_queue_size p) = Some qs \<Longrightarrow> parseInt (pool_queue p) = Some qd \<Longrightarrow> qs > 0 \<Longrightarrow>
   saturation p = Some (toFixed2 (to_double (to_double (of_int qd / of_int qs) * 100)))"
  by (simp add: saturation_def)

lemma sixty: "toFixed2 (to_double (to_double (3 / 5) * 100)) = 60"
  by code_simp

lemma saturation_60:
  assumes "parseInt (pool_queue_size p) = Some qs" "parseInt (pool_queue p) = Some qd" "qs > 0"
    "10 * qd = 6 * qs"
  shows "saturation p = Some 60"
proof -
  have "(of_int (10 * qd) :: rat) = of_int (6 * qs)" using assms(4) by simp
  then have q: "(of_int qd :: rat) / of_int qs = 3 / 5"
    using assms(3) by (simp add: field_simps)
  show ?thesis
    by (simp only: saturation_parsed [OF assms(1-3)] q sixty)
qed

text \<open>
  C6, amended. On a snapshot whose four unguarded groups are present the analysis
  succeeds, and its entries about queues are these. Critical: one saturation entry when
  \<open>maxSaturation\<close> is above 80, nothing else. Warnings: for each listed pool one
  per-pool entry when its queue depth is above 0.8 times a positive queue size (so none
  at 60 percent), then one saturation entry when \<open>maxSaturation\<close> is above 50 and at
  most 80. For any rows of the thread-pool call, \<open>maxSaturation\<close> is the largest of 0
  and the saturations of the rows of the write, bulk, search and get pools (\<open>NaN\<close>
  when one of them is \<open>NaN\<close>); the saturation of a row with a positive queue size is
  its fill percentage, computed in doubles and rounded to two decimals, and it is exactly
  60 at 60 percent fill. So a snapshot whose only row is a write, bulk, search or get
  pool at 60 percent fill gets exactly one queue warning, the saturation warning, and no
  critical queue entry.
\<close>

theorem queue_fill_findings:
  assumes "clusterHealth m = Some h" "threadPoolStats m = Some tp" "nodeStats m = Some ns"
    "pendingTasks m = Some pt"
  shows "(\<exists>m'. analyzeCriticalIssues m = Inr m' \<and>
           filter is_queue_finding (critical_issues (summary m')) =
             (case max_saturation (queueMetrics m) of
                None \<Rightarrow> []
              | Some x \<Rightarrow> if x > 80 then [QueueSaturationCritical x] else []) \<and>
           filter is_queue_finding (warnings (summary m')) =
             concat (map pool_warnings tp) @
             (case max_saturation (queueMetrics m) of
                None \<Rightarrow> []
              | Some x \<Rightarrow> if 50 < x \<and> x \<le> 80 then [QueueSaturationHigh x] else [])) \<and>
         (\<forall>p qs qd. parseInt (pool_queue_size p) = Some qs \<and> parseInt (pool_queue p) = Some qd
            \<longrightarrow> pool_warnings p =
                  (if qs > 0 \<and> 10 * qd > 8 * qs
                   then [PoolQueueFull (pool_name p) (of_int qd / of_int qs * 100)] else [])) \<and>
         maxSaturation (checkQueueMetrics (Inr rows)) =
           (if \<forall>p \<in> set (filter (\<lambda>p. pool_name p \<in> {''write'', ''bulk'', ''search'', ''get''})
                              rows). saturation p \<noteq> None
            then Some (Max (insert 0 ((\<lambda>p. the (saturation p)) `
                   set (filter (\<lambda>p. pool_name p \<in> {''write'', ''bulk'', ''search'', ''get''})
                          rows))))
            else None) \<and>
         (\<forall>p qs qd. parseInt (pool_queue_size p) = Some qs \<and> parseInt (pool_queue p) = Some qd
              \<and> qs > 0
            \<longrightarrow> saturation p =
                  Some (toFixed2 (to_double (to_double (of_int qd / of_int qs) * 100)))) \<and>
         (\<forall>p qs qd. parseInt (pool_queue_size p) = Some qs \<and> parseInt (pool_queue p) = Some qd
              \<and> qs > 0 \<and> 10 * qd = 6 * qs
            \<longrightarrow> saturation p = Some 60 \<and> pool_warnings p = []) \<and>
         (\<forall>p qs qd. tp = [p] \<and> queueMetrics m = Some (checkQueueMetrics (Inr [p])) \<and>
              pool_name p \<in> {''write'', ''bulk'', ''search'', ''get''} \<and>
              parseInt (pool_queue_size p) = Some qs \<and> parseInt (pool_queue p) = Some qd
              \<and> qs > 0 \<and> 10 * qd = 6 * qs
            \<longrightarrow> (\<exists>m'. analyzeCriticalIssues m = Inr m' \<and>
                   filter is_queue_finding (critical_issues (summary m')) = [] \<and>
                   filter is_queue_finding (warnings (summary m')) = [QueueSaturationHigh 60]))"
proof -
  from analyzeCriticalIssues_ok [OF assms] obtain m' where
    ok: "analyzeCriticalIssues m = Inr m'" and
    i: "critical_issues (summary m') = all_issues m h tp ns" and
    w: "warnings (summary m') = all_warnings m h tp ns pt"
    by blast
  have ci: "filter is_queue_finding (critical_issues (summary m')) =
      (case max_saturation (queueMetrics m) of
         None \<Rightarrow> []
       | Some x \<Rightarrow> if x > 80 then [QueueSaturationCritical x] else [])"
    by (simp add: i queue_filter_all_issues queue_issues_def)
  have wi: "filter is_queue_finding (warnings (summary m')) =
      concat (map pool_warnings tp) @
      (case max_saturation (queueMetrics m) of
         None \<Rightarrow> []
       | Some x \<Rightarrow> if 50 < x \<and> x \<le> 80 then [QueueSaturationHigh x] else [])"
    by (simp add: w queue_filter_all_warnings queue_warnings_def)
  have first: "\<exists>m'. analyzeCriticalIssues m = Inr m' \<and>
           filter is_queue_finding (critical_issues (summary m')) =
             (case max_saturation (queueMetrics m) of
                None \<Rightarrow> []
              | Some x \<Rightarrow> if x > 80 then [QueueSaturationCritical x] else []) \<and>
           filter is_queue_finding (warnings (summary m')) =
             concat (map pool_warnings tp) @
             (case max_saturation (queueMetrics m) of
                None \<Rightarrow> []
              | Some x \<Rightarrow> if 50 < x \<and> x \<le> 80 then [QueueSaturationHigh x] else [])"
    using ok ci wi by blast
  have sixty_none: "pool_warnings p = []"
    if "parseInt (pool_queue_size p) = Some qs" "parseInt (pool_queue p) = Some qd"
      "10 * qd = 6 * qs" "qs > 0" for p qs qd
    using that pool_warnings_parsed [of p qs qd] by simp
  have scenario: "\<exists>m'. analyzeCriticalIssues m = Inr m' \<and>
        filter is_queue_finding (critical_issues (summary m')) = [] \<and>
        filter is_queue_finding (warnings (summary m')) = [QueueSaturationHigh 60]"
    if "tp = [p]" "queueMetrics m = Some (checkQueueMetrics (Inr [p]))"
      "pool_name p \<in> {''write'', ''bulk'', ''search'', ''get''}"
      "parseInt (pool_queue_size p) = Some qs" "parseInt (pool_queue p) = Some qd"
      "qs > 0" "10 * qd = 6 * qs" for p qs qd
  proof -
    have s: "saturation p = Some 60"
      using that by (simp add: saturation_60)
    have "maxSaturation (checkQueueMetrics (Inr [p])) = Some 60"
      unfolding maxSaturation_rows using that(3) s by simp
    then have ms: "max_saturation (queueMetrics m) = Some 60"
      using that(2) by (simp add: max_saturation_def)
    have pw: "pool_warnings p = []"
      using that sixty_none by blast
    show ?thesis
      using ok ci wi by (simp add: ms pw that(1))
  qed
  show ?thesis
    using first pool_warnings_parsed maxSaturation_rows [of rows] saturation_parsed
      saturation_60 sixty_none scenario
    by (intro conjI allI impI) (simp_all, blast+)
qed

theorem queue_fill_findings_witness:
  "checkQueueMetrics
     (Inr [\<lparr>pool_node_name = ''node-1'', pool_name = ''search'', pool_active = ''1'',
            pool_queue = ''600'', pool_rejected = ''0'', pool_queue_size = ''1000''\<rparr>]) =
     \<lparr>maxSaturation = Some 60,
      poolData = [\<lparr>pool_node_name = ''node-1'', pool_name = ''search'', pool_active = ''1'',
                   pool_queue = ''600'', pool_rejected = ''0'', pool_queue_size = ''1000''\<rparr>]\<rparr> \<and>
   maxSaturation (checkQueueMetrics
     (Inr [\<lparr>pool_node_name = ''node-1'', pool_name = ''search'', pool_active = ''1'',
            pool_queue = ''10'', pool_rejected = ''0'', pool_queue_size = ''100''\<rparr>,
           \<lparr>pool_node_name = ''node-2'', pool_name = ''write'', pool_active = ''1'',
            pool_queue = ''87'', pool_rejected = ''0'', pool_queue_size = ''160''\<rparr>,
           \<lparr>pool_node_name = ''node-2'', pool_name = ''refresh'', pool_active = ''1'',
            pool_queue = ''9'', pool_rejected = ''0'', pool_queue_size = ''10''\<rparr>])) =
     Some (5437 / 100) \<and>
   (\<exists>m'. analyzeCriticalIssues
          ((initial_metrics ''t'')
             \<lparr>clusterHealth := Some \<lparr>cluster_status = ''green'', number_of_nodes = 1,
                                      number_of_pending_tasks = 0\<rparr>,
              threadPoolStats :=
                Some [\<lparr>pool_node_name = ''node-1'', pool_name = ''search'', pool_active = ''1'',
                       pool_queue = ''600'', pool_rejected = ''0'',
                       pool_queue_size = ''1000''\<rparr>],
              nodeStats := Some [], pendingTasks := Some [],
              queueMetrics :=
                Some (checkQueueMetrics
                  (Inr [\<lparr>pool_node_name = ''node-1'', pool_name = ''search'',
                         pool_active = ''1'', pool_queue = ''600'', pool_rejected = ''0'',
                         pool_queue_size = ''1000''\<rparr>]))\<rparr>) = Inr m' \<and>
        filter is_queue_finding (critical_issues (summary m')) = [] \<and>
        filter is_queue_finding (warnings (summary m')) = [QueueSaturationHigh 60])"
proof -
  have q: "checkQueueMetrics
     (Inr [\<lparr>pool_node_name = ''node-1'', pool_name = ''search'', pool_active = ''1'',
            pool_queue = ''600'', pool_rejected = ''0'', pool_queue_size = ''1000''\<rparr>]) =
     \<lparr>maxSaturation = Some 60,
      poolData = [\<lparr>pool_node_name = ''node-1'', pool_name = ''search'', pool_active = ''1'',
                   pool_queue = ''600'', pool_rejected = ''0'', pool_queue_size = ''1000''\<rparr>]\<rparr>"
    by code_simp
  have r: "maxSaturation (checkQueueMetrics
     (Inr [\<lparr>pool_node_name = ''node-1'', pool_name = ''search'', pool_active = ''1'',
            pool_queue = ''10'', pool_rejected = ''0'', pool_queue_size = ''100''\<rparr>,
           \<lparr>pool_node_name = ''node-2'', pool_name = ''write'', pool_active = ''1'',
            pool_queue = ''87'', pool_rejected = ''0'', pool_queue_size = ''160''\<rparr>,
           \<lparr>pool_node_name = ''node-2'', pool_name = ''refresh'', pool_active = ''1'',
            pool_queue = ''9'', pool_rejected = ''0'', pool_queue_size = ''10''\<rparr>])) =
     Some (5437 / 100)"
    by code_simp
  have p: "parseInt ''1000'' = Some 1000" "parseInt ''600'' = Some 600"
    by code_simp+
  have "\<exists>m'. analyzeCriticalIssues
          ((initial_metrics ''t'')
             \<lparr>clusterHealth := Some \<lparr>cluster_status = ''green'', number_of_nodes = 1,
                                      number_of_pending_tasks = 0\<rparr>,
              threadPoolStats :=
                Some [\<lparr>pool_node_name = ''node-1'', pool_name = ''search'', pool_active = ''1'',
                       pool_queue = ''600'', pool_rejected = ''0'',
                       pool_queue_size = ''1000''\<rparr>],
              nodeStats := Some [], pendingTasks := Some [],
              queueMetrics :=
                Some (checkQueueMetrics
                  (Inr [\<lparr>pool_node_name = ''node-1'', pool_name = ''search'',
                         pool_active = ''1'', pool_queue = ''600'', pool_rejected = ''0'',
                         pool_queue_size = ''1000''\<rparr>]))\<rparr>) = Inr m' \<and>
        filter is_queue_finding (critical_issues (summary m')) = [] \<and>
        filter is_queue_finding (warnings (summary m')) = [QueueSaturationHigh 60]"
    using p queue_fill_findings
      [of "(initial_metrics ''t'')
             \<lparr>clusterHealth := Some \<lparr>cluster_status = ''green'', number_of_nodes = 1,
                                      number_of_pending_tasks = 0\<rparr>,
              threadPoolStats :=
                Some [\<lparr>pool_node_name = ''node-1'', pool_name = ''search'', pool_active = ''1'',
                       pool_queue = ''600'', pool_rejected = ''0'',
                       pool_queue_size = ''1000''\<rparr>],
              nodeStats := Some [], pendingTasks := Some [],
              queueMetrics :=
                Some (checkQueueMetrics
                  (Inr [\<lparr>pool_node_name = ''node-1'', pool_name = ''search'',
                         pool_active = ''1'', pool_queue = ''600'', pool_rejected = ''0'',
                         pool_queue_size = ''1000''\<rparr>]))\<rparr>"
        "\<lparr>cluster_status = ''green'', number_of_nodes = 1, number_of_pending_tasks = 0\<rparr>"
        "[\<lparr>pool_node_name = ''node-1'', pool_name = ''search'', pool_active = ''1'',
           pool_queue = ''600'', pool_rejected = ''0'', pool_queue_size = ''1000''\<rparr>]"
        "[]" "[]" "[]"]
    by (simp add: initial_metrics_def)
  then show ?thesis using q r by blast
qed

subsection \<open>Failing fetches\<close>

lemmas fetch_defs = initializeOpenSearchClient_def checkClusterHealth_def checkThreadPools_def
  checkNodeStats_def checkIndexStats_def checkIndexSettings_def checkClusterSettings_def
  checkPendingTasks_def checkActiveTasks_def checkCircuitBreakerStatus_def node_trips_def
  checkCacheMetrics_def checkSegmentStats_def checkQueueMetrics_def checkHotThreads_def
  saturation_def is_search_task_def

lemma save_files_ok:
  "\<forall>c. fs_error fs c = None \<Longrightarrow> \<exists>fs'. save_files metrics fs = Inr fs'"
  by (simp add: save_files_def)

lemma runFullCheck_core_ok:
  assumes "ssm_parameter api = Inr (Some host)" "host \<noteq> []" "new_client api host = None"
    "cluster_health api = Inr h"
    "cat_threadPool api = Inr rows" "nodes_stats api = Inr ns"
    "cluster_getSettings api = Inr cs" "cluster_pendingTasks api = Inr pt"
    "saveToFile \<longrightarrow> (\<forall>c. fs_error fs c = None)"
  shows "\<exists>m fs'. runFullCheck saveToFile api fs = Inr (m, fs') \<and>
        timestamp m = now api \<and>
        clusterHealth m = Some h \<and>
        threadPoolStats m =
          Some (filter (\<lambda>p. pool_name p \<in>
                  {''write'', ''bulk'', ''search'', ''get'', ''index'', ''refresh''}) rows) \<and>
        nodeStats m = Some ns \<and> clusterStats m = Some cs \<and> pendingTasks m = Some pt \<and>
        indexStats m = checkIndexStats (indices_stats api ''pms_green_dot'') \<and>
        indexStatsUserRooms m = checkIndexStats (indices_stats api ''pms-user-rooms'') \<and>
        activeTasks m = Some (checkActiveTasks (tasks_list api)) \<and>
        circuitBreakerStatus m = Some (checkCircuitBreakerStatus (nodes_stats_breaker api)) \<and>
        cacheMetrics m = Some (checkCacheMetrics (nodes_stats_indices api)) \<and>
        segmentStats m = checkSegmentStats (indices_stats_segments api ''pms_green_dot'') \<and>
        segmentStatsUserRooms m =
          checkSegmentStats (indices_stats_segments api ''pms-user-rooms'') \<and>
        queueMetrics m = Some (checkQueueMetrics (cat_threadPool_queue api)) \<and>
        hotThreads m = Some (checkHotThreads (nodes_hotThreads api))"
proof (cases saveToFile)
  case False
  then show ?thesis
    using assms
    by (simp add: runFullCheck_def initializeOpenSearchClient_def checkClusterHealth_def
        checkThreadPools_def checkNodeStats_def checkClusterSettings_def checkPendingTasks_def
        analyzeCriticalIssues_def initial_metrics_def Let_def)
next
  case True
  then have "\<forall>c. fs_error fs c = None" using assms(9) by simp
  then show ?thesis
    using True assms(1-8)
    by (simp add: runFullCheck_def initializeOpenSearchClient_def checkClusterHealth_def
        checkThreadPools_def checkNodeStats_def checkClusterSettings_def checkPendingTasks_def
        analyzeCriticalIssues_def initial_metrics_def Let_def save_files_def)
qed

lemma runFullCheck_core_fails:
  assumes "cluster_health api = Inl e \<or> cat_threadPool api = Inl e \<or> nodes_stats api = Inl e \<or>
     cluster_getSettings api = Inl e \<or> cluster_pendingTasks api = Inl e"
  shows "\<exists>e'. runFullCheck saveToFile api fs = Inl e'"
  using assms
  by (auto simp: runFullCheck_def checkClusterHealth_def
      checkThreadPools_def checkNodeStats_def checkClusterSettings_def checkPendingTasks_def
      Let_def split: sum.splits)

lemma runFullCheck_init_fails:
  assumes "ssm_parameter api = Inr (Some host)" "new_client api host = Some e"
  shows "\<exists>e'. runFullCheck saveToFile api fs = Inl e'"
  using assms
  by (simp add: runFullCheck_def initializeOpenSearchClient_def Let_def)

lemma runFullCheck_save_fails:
  assumes "saveToFile" "fs_error fs WriteJson = Some e \<or> fs_error fs AppendRow = Some e"
  shows "\<exists>e'. runFullCheck saveToFile api fs = Inl e'"
  using assms
  by (auto simp: runFullCheck_def save_files_def Let_def split: sum.splits option.splits)

lemma fallbacks:
  "checkIndexStats (Inl e) = None"
  "checkIndexSettings (Inl e) = None"
  "checkActiveTasks (Inl e) =
     \<lparr>tasks_total = 0, searchTasks = 0, longRunning5s = 0, longRunning10s = 0,
      longRunning30s = 0, tasks_top = []\<rparr>"
  "checkCircuitBreakerStatus (Inl e) = \<lparr>breaker_nodes = [], totalTrips = 0\<rparr>"
  "checkCacheMetrics (Inl e) =
     \<lparr>queryCacheEvictions = 0, fieldDataEvictions = 0, cache_nodes = []\<rparr>"
  "checkSegmentStats (Inl e) = None"
  "checkQueueMetrics (Inl e) = \<lparr>maxSaturation = Some 0, poolData = []\<rparr>"
  "checkHotThreads (Inl e) = \<lparr>hot_summary = ''Not available''\<rparr>"
  by (simp_all add: fetch_defs)

text \<open>
  C2, as stated, fails: when the cluster-health call rejects, the cycle rethrows the error
  and returns no snapshot, so nothing is marked and nothing else is populated.
\<close>

theorem health_failure_aborts_cycle:
  "runFullCheck True (healthy_api\<lparr>cluster_health := Inl (Error ''Request timed out'')\<rparr>)
     no_files = Inl (Error ''Request timed out'') \<and>
   snapshot_of
     (runFullCheck True (healthy_api\<lparr>cluster_health := Inl (Error ''Request timed out'')\<rparr>)
        no_files) = None"
  by (simp add: runFullCheck_def healthy_api_def fetch_defs snapshot_of_def)

text \<open>
  C2, amended. When the client initialises (the parameter is found and building the
  client does not throw), the five calls made without a \<open>catch\<close> (cluster health,
  thread pools, node stats, cluster settings, pending tasks) resolve and, if the cycle
  saves, no file-system call throws, the cycle returns a snapshot whatever the other
  calls do: each group is what its own \<open>check...\<close> method makes of its own call, and
  for a rejected call that is the fallback (\<open>null\<close> for index stats and segments, the
  all-zero objects for active tasks, circuit breakers, caches and queue saturation, "Not
  available" for hot threads; index settings are not stored). When one of the five calls
  rejects, when building the client throws, or when the cycle saves and writing the
  JSON file or appending the row throws, the cycle throws and returns no snapshot.
\<close>

theorem fetch_failure_isolation:
  "(ssm_parameter api = Inr (Some host) \<and> host \<noteq> [] \<and> new_client api host = None \<and>
    cluster_health api = Inr h \<and>
    cat_threadPool api = Inr rows \<and> nodes_stats api = Inr ns \<and>
    cluster_getSettings api = Inr cs \<and> cluster_pendingTasks api = Inr pt \<and>
    (saveToFile \<longrightarrow> (\<forall>c. fs_error fs c = None)) \<longrightarrow>
    (\<exists>m fs'. runFullCheck saveToFile api fs = Inr (m, fs') \<and>
        timestamp m = now api \<and>
        clusterHealth m = Some h \<and>
        threadPoolStats m =
          Some (filter (\<lambda>p. pool_name p \<in>
                  {''write'', ''bulk'', ''search'', ''get'', ''index'', ''refresh''}) rows) \<and>
        nodeStats m = Some ns \<and> clusterStats m = Some cs \<and> pendingTasks m = Some pt \<and>
        indexStats m = checkIndexStats (indices_stats api ''pms_green_dot'') \<and>
        indexStatsUserRooms m = checkIndexStats (indices_stats api ''pms-user-rooms'') \<and>
        activeTasks m = Some (checkActiveTasks (tasks_list api)) \<and>
        circuitBreakerStatus m = Some (checkCircuitBreakerStatus (nodes_stats_breaker api)) \<and>
        cacheMetrics m = Some (checkCacheMetrics (nodes_stats_indices api)) \<and>
        segmentStats m = checkSegmentStats (indices_stats_segments api ''pms_green_dot'') \<and>
        segmentStatsUserRooms m =
          checkSegmentStats (indices_stats_segments api ''pms-user-rooms'') \<and>
        queueMetrics m = Some (checkQueueMetrics (cat_threadPool_queue api)) \<and>
        hotThreads m = Some (checkHotThreads (nodes_hotThreads api)))) \<and>
   checkIndexStats (Inl e) = None \<and>
   checkIndexSettings (Inl e) = None \<and>
   checkActiveTasks (Inl e) =
     \<lparr>tasks_total = 0, searchTasks = 0, longRunning5s = 0, longRunning10s = 0,
      longRunning30s = 0, tasks_top = []\<rparr> \<and>
   checkCircuitBreakerStatus (Inl e) = \<lparr>breaker_nodes = [], totalTrips = 0\<rparr> \<and>
   checkCacheMetrics (Inl e) =
     \<lparr>queryCacheEvictions = 0, fieldDataEvictions = 0, cache_nodes = []\<rparr> \<and>
   checkSegmentStats (Inl e) = None \<and>
   checkQueueMetrics (Inl e) = \<lparr>maxSaturation = Some 0, poolData = []\<rparr> \<and>
   checkHotThreads (Inl e) = \<lparr>hot_summary = ''Not available''\<rparr> \<and>
   (cluster_health api = Inl e \<or> cat_threadPool api = Inl e \<or> nodes_stats api = Inl e \<or>
    cluster_getSettings api = Inl e \<or> cluster_pendingTasks api = Inl e \<longrightarrow>
    (\<exists>e'. runFullCheck saveToFile api fs = Inl e')) \<and>
   (ssm_parameter api = Inr (Some host) \<and> new_client api host = Some e \<longrightarrow>
    (\<exists>e'. runFullCheck saveToFile api fs = Inl e')) \<and>
   (saveToFile \<and> (fs_error fs WriteJson = Some e \<or> fs_error fs AppendRow = Some e) \<longrightarrow>
    (\<exists>e'. runFullCheck saveToFile api fs = Inl e'))"
proof (intro conjI impI)
  assume "ssm_parameter api = Inr (Some host) \<and> host \<noteq> [] \<and> new_client api host = None \<and>
    cluster_health api = Inr h \<and>
    cat_threadPool api = Inr rows \<and> nodes_stats api = Inr ns \<and>
    cluster_getSettings api = Inr cs \<and> cluster_pendingTasks api = Inr pt \<and>
    (saveToFile \<longrightarrow> (\<forall>c. fs_error fs c = None))"
  then show "\<exists>m fs'. runFullCheck saveToFile api fs = Inr (m, fs') \<and>
        timestamp m = now api \<and>
        clusterHealth m = Some h \<and>
        threadPoolStats m =
          Some (filter (\<lambda>p. pool_name p \<in>
                  {''write'', ''bulk'', ''search'', ''get'', ''index'', ''refresh''}) rows) \<and>
        nodeStats m = Some ns \<and> clusterStats m = Some cs \<and> pendingTasks m = Some pt \<and>
        indexStats m = checkIndexStats (indices_stats api ''pms_green_dot'') \<and>
        indexStatsUserRooms m = checkIndexStats (indices_stats api ''pms-user-rooms'') \<and>
        activeTasks m = Some (checkActiveTasks (tasks_list api)) \<and>
        circuitBreakerStatus m = Some (checkCircuitBreakerStatus (nodes_stats_breaker api)) \<and>
        cacheMetrics m = Some (checkCacheMetrics (nodes_stats_indices api)) \<and>
        segmentStats m = checkSegmentStats (indices_stats_segments api ''pms_green_dot'') \<and>
        segmentStatsUserRooms m =
          checkSegmentStats (indices_stats_segments api ''pms-user-rooms'') \<and>
        queueMetrics m = Some (checkQueueMetrics (cat_threadPool_queue api)) \<and>
        hotThreads m = Some (checkHotThreads (nodes_hotThreads api))"
    using runFullCheck_core_ok [of api host h rows ns cs pt saveToFile fs] by blast
next
  assume "cluster_health api = Inl e \<or> cat_threadPool api = Inl e \<or> nodes_stats api = Inl e \<or>
    cluster_getSettings api = Inl e \<or> cluster_pendingTasks api = Inl e"
  then show "\<exists>e'. runFullCheck saveToFile api fs = Inl e'"
    by (rule runFullCheck_core_fails)
next
  assume "ssm_parameter api = Inr (Some host) \<and> new_client api host = Some e"
  then show "\<exists>e'. runFullCheck saveToFile api fs = Inl e'"
    using runFullCheck_init_fails by blast
next
  assume "saveToFile \<and> (fs_error fs WriteJson = Some e \<or> fs_error fs AppendRow = Some e)"
  then show "\<exists>e'. runFullCheck saveToFile api fs = Inl e'"
    using runFullCheck_save_fails by blast
qed (simp_all add: fallbacks)

theorem fetch_failure_isolation_witness:
  "\<exists>m fs'.
     runFullCheck True
       (healthy_api\<lparr>indices_stats :=
          (\<lambda>indexName. if indexName = ''pms_green_dot'' then Inl (Error ''Request timed out'')
             else Inr (Some \<lparr>refresh_total = 10, refresh_total_time_in_millis = 100,
                             indexing_index_total = 500,
                             indexing_index_time_in_millis = 1000\<rparr>))\<rparr>)
       no_files = Inr (m, fs') \<and>
     indexStats m = None \<and>
     indexStatsUserRooms m =
       Some \<lparr>refresh_total = 10, refresh_total_time_in_millis = 100,
             indexing_index_total = 500, indexing_index_time_in_millis = 1000\<rparr> \<and>
     clusterHealth m =
       Some \<lparr>cluster_status = ''green'', number_of_nodes = 2, number_of_pending_tasks = 0\<rparr> \<and>
     pendingTasks m = Some [] \<and>
     cacheMetrics m =
       Some \<lparr>queryCacheEvictions = 0, fieldDataEvictions = 0,
             cache_nodes =
               [\<lparr>cache_node_name = ''node-1'', query_cache_evictions = Some 0,
                 fielddata_evictions = Some 0, request_cache_evictions = Some 0\<rparr>]\<rparr> \<and>
     segmentStats m =
       Some \<lparr>segment_count = 20, memoryInBytes = 1000,
             segments_raw = \<lparr>segments_count = 20, memory_in_bytes = 1000\<rparr>\<rparr> \<and>
     hotThreads m = Some \<lparr>hot_summary = []\<rparr>"
  using fetch_failure_isolation
    [where api = "healthy_api\<lparr>indices_stats :=
          (\<lambda>indexName. if indexName = ''pms_green_dot'' then Inl (Error ''Request timed out'')
             else Inr (Some \<lparr>refresh_total = 10, refresh_total_time_in_millis = 100,
                             indexing_index_total = 500,
                             indexing_index_time_in_millis = 1000\<rparr>))\<rparr>"
      and host = "''https://search.example''"
      and h = "\<lparr>cluster_status = ''green'', number_of_nodes = 2, number_of_pending_tasks = 0\<rparr>"
      and rows = "[\<lparr>pool_node_name = ''node-1'', pool_name = ''search'', pool_active = ''1'',
              pool_queue = ''0'', pool_rejected = ''0'', pool_queue_size = ''1000''\<rparr>]"
      and ns = "[\<lparr>node_name = ''node-1'', heap_used_percent = 40, old_collection_count = 0,
               cpu_percent = 10, thread_pool_rejected = []\<rparr>,
             \<lparr>node_name = ''node-2'', heap_used_percent = 60, old_collection_count = 0,
               cpu_percent = 30, thread_pool_rejected = []\<rparr>]"
      and cs = "\<lparr>persistent = [], defaults = []\<rparr>" and pt = "[]"
      and saveToFile = True and fs = no_files]
  by (auto simp: healthy_api_def no_files_def fetch_defs)

end
